theory Spec2Isabelle
  imports Complex_Main "HOL-Library.Sublist"
begin

section \<open>go-kwin6: the KWin scripting bridge (kwin.go)\<close>

text \<open>
  A shallow embedding of \<^verbatim>\<open>kwin.go\<close>. Go strings are byte sequences, so a string is a
  \<^typ>\<open>string\<close> (a list of 8-bit characters). Go's \<^verbatim>\<open>int\<close> is an \<^typ>\<open>int\<close>, with the
  64-bit range written out where the code depends on it (\<^verbatim>\<open>strconv.Atoi\<close>). A function
  returning \<^verbatim>\<open>(T, error)\<close> returns a pair of a value and an \<open>error option\<close>
  (\<open>None\<close> is Go's \<^verbatim>\<open>nil\<close> error); a nil slice is the empty list and a nil map is
  \<open>None\<close>. Panics are a separate outcome. Everything outside the process (files,
  child processes, the clock, the JSON and UUID libraries) is an environment that answers
  each request; the effects performed are recorded, in order, in a trace.
\<close>

subsection \<open>Special characters of the script texts\<close>

abbreviation TAB :: string where "TAB \<equiv> [CHR 0x09]"
abbreviation DQ :: string where "DQ \<equiv> [CHR 0x22]"
abbreviation BSL :: string where "BSL \<equiv> [CHR 0x5C]"

subsection \<open>Data model (the \<^verbatim>\<open>type\<close> block of kwin.go)\<close>

type_synonym float64 = real

text \<open>\<^verbatim>\<open>uuid.UUID\<close> is an array of 16 bytes; only equality of identifiers is used.\<close>

datatype uuid = UUID string

record Point =
  X :: int
  Y :: int

record Rect =
  TopLeft :: Point
  BottomRight :: Point

record Screen =
  Name :: string
  Geometry :: Rect
  Manufacturer :: string
  Model :: string
  SerialNumber :: string
  PixelRatio :: float64

record Desktop =
  Id :: string
  Index :: int
  Name :: string
  X11Number :: int

record Window =
  Id :: string
  Caption :: string
  Pid :: int
  CmdLine :: string
  AppName :: string
  X :: float64
  Y :: float64
  Width :: float64
  Height :: float64
  Fullscreen :: bool
  OnAllDesktops :: bool
  KeepAbove :: bool
  KeepBelow :: bool
  Minimized :: bool
  DesktopIds :: "uuid list"
  Desktops :: "Desktop list"
  DemandsAttention :: bool

record Environment =
  Screens :: "(string \<rightharpoonup> Screen) option"
  Desktops :: "(uuid \<rightharpoonup> Desktop) option"
  Windows :: "(uuid \<rightharpoonup> Window) option"

text \<open>The zero values Go gives to \<^verbatim>\<open>Desktop{}\<close> and \<^verbatim>\<open>Environment{}\<close>.\<close>

definition zeroDesktop :: Desktop where
  "zeroDesktop = \<lparr>Desktop.Id = [], Index = 0, Desktop.Name = [], X11Number = 0\<rparr>"

definition zeroEnvironment :: Environment where
  "zeroEnvironment = \<lparr>Screens = None, Environment.Desktops = None, Windows = None\<rparr>"

subsection \<open>Errors and panics\<close>

datatype num_err = ErrSyntax | ErrRange

datatype error =
    OSError string
  | ScriptLoadFailed "string list"
  | NumError string string num_err
  | DecodeError string

datatype panic =
    IndexOutOfRange int nat
  | NilPointerDereference
  | MustParseFailed string error

datatype 'a outcome = Returned 'a | Panicked panic

subsection \<open>Go library functions on strings\<close>

text \<open>
  \<^verbatim>\<open>strings.ReplaceAll(s, old, new)\<close>: the non-overlapping occurrences of \<open>old\<close>,
  found from left to right, are replaced by \<open>new\<close>. The counter is the number of bytes
  of a matched occurrence still to be skipped. (For an empty \<open>old\<close>, Go inserts \<open>new\<close>
  before every UTF-8 sequence and at the end; the model does so before every byte, which
  is the same on ASCII text. The source only calls it with \<^verbatim>\<open>"js: "\<close>.)
\<close>

fun replaceAux :: "string \<Rightarrow> string \<Rightarrow> nat \<Rightarrow> string \<Rightarrow> string" where
  "replaceAux old new k [] = (if old = [] then new else [])"
| "replaceAux old new (Suc k) (c # cs) = replaceAux old new k cs"
| "replaceAux old new 0 (c # cs) =
     (if old = [] then new @ c # replaceAux old new 0 cs
      else if take (length old) (c # cs) = old
      then new @ replaceAux old new (length old - 1) cs
      else c # replaceAux old new 0 cs)"

definition ReplaceAll :: "string \<Rightarrow> string \<Rightarrow> string \<Rightarrow> string" where
  "ReplaceAll s old new = replaceAux old new 0 s"

text \<open>
  \<^verbatim>\<open>unicode.IsSpace\<close> on the UTF-8 text of a Go string: \<open>spaceWidth s\<close> is the number
  of bytes of the white-space rune that \<open>s\<close> starts with, and 0 when it starts with none.
  The white-space runes are \<^verbatim>\<open>\t \n \v \f \r\<close>, the space, U+0085, U+00A0, U+1680,
  U+2000 to U+200A, U+2028, U+2029, U+202F, U+205F and U+3000.
\<close>

definition isAsciiSpace :: "char \<Rightarrow> bool" where
  "isAsciiSpace c = (c \<in> set [CHR 0x09, CHR 0x0A, CHR 0x0B, CHR 0x0C, CHR 0x0D, CHR 0x20])"

definition spaceSeqs :: "string list" where
  "spaceSeqs =
     [[CHR 0xC2, CHR 0x85], [CHR 0xC2, CHR 0xA0], [CHR 0xE1, CHR 0x9A, CHR 0x80],
      [CHR 0xE2, CHR 0x80, CHR 0x80], [CHR 0xE2, CHR 0x80, CHR 0x81],
      [CHR 0xE2, CHR 0x80, CHR 0x82], [CHR 0xE2, CHR 0x80, CHR 0x83],
      [CHR 0xE2, CHR 0x80, CHR 0x84], [CHR 0xE2, CHR 0x80, CHR 0x85],
      [CHR 0xE2, CHR 0x80, CHR 0x86], [CHR 0xE2, CHR 0x80, CHR 0x87],
      [CHR 0xE2, CHR 0x80, CHR 0x88], [CHR 0xE2, CHR 0x80, CHR 0x89],
      [CHR 0xE2, CHR 0x80, CHR 0x8A], [CHR 0xE2, CHR 0x80, CHR 0xA8],
      [CHR 0xE2, CHR 0x80, CHR 0xA9], [CHR 0xE2, CHR 0x80, CHR 0xAF],
      [CHR 0xE2, CHR 0x81, CHR 0x9F], [CHR 0xE3, CHR 0x80, CHR 0x80]]"

definition spaceWidth :: "string \<Rightarrow> nat" where
  "spaceWidth s =
     (case s of [] \<Rightarrow> 0
      | c # cs \<Rightarrow>
          if isAsciiSpace c then 1
          else (case filter (\<lambda>q. take (length q) s = q) spaceSeqs of
                  [] \<Rightarrow> 0 | q # _ \<Rightarrow> length q))"

text \<open>The same for the rune a string ends with, read on the reversed string.\<close>

definition spaceWidthRev :: "string \<Rightarrow> nat" where
  "spaceWidthRev r =
     (case r of [] \<Rightarrow> 0
      | c # cs \<Rightarrow>
          if isAsciiSpace c then 1
          else (case filter (\<lambda>q. take (length q) r = rev q) spaceSeqs of
                  [] \<Rightarrow> 0 | q # _ \<Rightarrow> length q))"

text \<open>
  \<^verbatim>\<open>strings.Fields(s)\<close>: the maximal runs of bytes between white space; never an
  empty field. \<open>cur\<close> is the field being read and the counter the bytes of a
  white-space rune still to be skipped.
\<close>

fun fieldsAux :: "string \<Rightarrow> nat \<Rightarrow> string \<Rightarrow> string list" where
  "fieldsAux cur k [] = (if cur = [] then [] else [cur])"
| "fieldsAux cur (Suc k) (c # cs) = fieldsAux cur k cs"
| "fieldsAux cur 0 (c # cs) =
     (case spaceWidth (c # cs) of
        0 \<Rightarrow> fieldsAux (cur @ [c]) 0 cs
      | Suc n \<Rightarrow> (if cur = [] then [] else [cur]) @ fieldsAux [] n cs)"

definition Fields :: "string \<Rightarrow> string list" where
  "Fields s = fieldsAux [] 0 s"

text \<open>\<^verbatim>\<open>strings.TrimSpace(s)\<close>: leading and trailing white space removed.\<close>

fun trimLeft :: "(string \<Rightarrow> nat) \<Rightarrow> nat \<Rightarrow> string \<Rightarrow> string" where
  "trimLeft f k [] = []"
| "trimLeft f (Suc k) (c # cs) = trimLeft f k cs"
| "trimLeft f 0 (c # cs) =
     (case f (c # cs) of 0 \<Rightarrow> c # cs | Suc n \<Rightarrow> trimLeft f n cs)"

definition TrimSpace :: "string \<Rightarrow> string" where
  "TrimSpace s = rev (trimLeft spaceWidthRev 0 (rev (trimLeft spaceWidth 0 s)))"

text \<open>
  \<^verbatim>\<open>strings.Split(s, sep)\<close> for a non-empty separator: the pieces between the
  non-overlapping occurrences of \<open>sep\<close>, one more piece than occurrences. (For an empty
  separator Go splits after every UTF-8 sequence; the model splits after every byte. The
  source only calls it with \<^verbatim>\<open>"/"\<close>.)
\<close>

fun splitAux :: "string \<Rightarrow> string \<Rightarrow> nat \<Rightarrow> string \<Rightarrow> string list" where
  "splitAux sep cur k [] = [cur]"
| "splitAux sep cur (Suc k) (c # cs) = splitAux sep cur k cs"
| "splitAux sep cur 0 (c # cs) =
     (if sep \<noteq> [] \<and> take (length sep) (c # cs) = sep
      then cur # splitAux sep [] (length sep - 1) cs
      else splitAux sep (cur @ [c]) 0 cs)"

definition Split :: "string \<Rightarrow> string \<Rightarrow> string list" where
  "Split s sep = (if sep = [] then map (\<lambda>c. [c]) s else splitAux sep [] 0 s)"

text \<open>
  \<^verbatim>\<open>strconv.Atoi(s)\<close>: an optional sign and then one or more decimal digits. The
  digits are read from left to right as \<^verbatim>\<open>ParseUint\<close> reads them: a byte that is not a
  digit is a syntax error, and digits whose value leaves the unsigned 64-bit range are a
  range error, whichever comes first; a value read is then checked against the range of
  the signed 64-bit \<^verbatim>\<open>int\<close>. A syntax error returns 0 and a range error the nearest
  bound, each with a \<^verbatim>\<open>*NumError\<close>. (The fast path of \<^verbatim>\<open>Atoi\<close> for fewer than 19
  bytes gives the same answers: 18 digits cannot leave the range.)
\<close>

definition isDigit :: "char \<Rightarrow> bool" where
  "isDigit c = (48 \<le> (of_char c :: nat) \<and> (of_char c :: nat) \<le> 57)"

fun scanDigits :: "int \<Rightarrow> string \<Rightarrow> num_err + int" where
  "scanDigits n [] = Inr n"
| "scanDigits n (c # cs) =
     (if isDigit c
      then (if n \<ge> 1844674407370955162 then Inl ErrRange
            else (let n1 = n * 10 + ((of_char c :: int) - 48)
                  in if n1 > 2 ^ 64 - 1 then Inl ErrRange else scanDigits n1 cs))
      else Inl ErrSyntax)"

definition Atoi :: "string \<Rightarrow> int \<times> error option" where
  "Atoi s =
     (let neg = (take 1 s = ''-'');
          body = (if take 1 s = ''+'' \<or> take 1 s = ''-'' then drop 1 s else s)
      in if body = [] then (0, Some (NumError ''Atoi'' s ErrSyntax))
         else (case scanDigits 0 body of
                 Inl ErrSyntax \<Rightarrow> (0, Some (NumError ''Atoi'' s ErrSyntax))
               | Inl ErrRange \<Rightarrow>
                   (if neg then - (2 ^ 63) else 2 ^ 63 - 1, Some (NumError ''Atoi'' s ErrRange))
               | Inr un \<Rightarrow>
                   (if neg
                    then (if un > 2 ^ 63
                          then (- (2 ^ 63), Some (NumError ''Atoi'' s ErrRange))
                          else (- un, None))
                    else (if un \<ge> 2 ^ 63
                          then (2 ^ 63 - 1, Some (NumError ''Atoi'' s ErrRange))
                          else (un, None)))))"

text \<open>Decimal rendering of an integer, as the verbs \<^verbatim>\<open>%d\<close> and \<^verbatim>\<open>%v\<close> print it.\<close>

function decimalDigits :: "int \<Rightarrow> string" where
  "decimalDigits n =
     (if n < 10 then [char_of (48 + n)]
      else decimalDigits (n div 10) @ [char_of (48 + n mod 10)])"
  by pat_completeness auto
termination
  by (relation "measure nat") auto

declare decimalDigits.simps [simp del]

definition Itoa :: "int \<Rightarrow> string" where
  "Itoa i = (if i < 0 then ''-'' @ decimalDigits (- i) else decimalDigits i)"

text \<open>
  \<^verbatim>\<open>fmt.Sprintf\<close> for the verbs and operand types the source uses (\<^verbatim>\<open>%s\<close>, \<^verbatim>\<open>%v\<close>,
  \<^verbatim>\<open>%d\<close>, \<^verbatim>\<open>%t\<close> on strings, booleans and integers; no flags, width or precision).
  A verb that does not fit its operand prints \<^verbatim>\<open>%!verb(type=value)\<close>, a verb without
  an operand \<^verbatim>\<open>%!verb(MISSING)\<close>, and operands left over are listed after
  \<^verbatim>\<open>%!(EXTRA \<close>.
\<close>

datatype fmt_arg = AString string | ABool bool | AInt int

fun argType :: "fmt_arg \<Rightarrow> string" where
  "argType (AString s) = ''string''"
| "argType (ABool b) = ''bool''"
| "argType (AInt i) = ''int''"

fun argValue :: "fmt_arg \<Rightarrow> string" where
  "argValue (AString s) = s"
| "argValue (ABool b) = (if b then ''true'' else ''false'')"
| "argValue (AInt i) = Itoa i"

definition verbFits :: "char \<Rightarrow> fmt_arg \<Rightarrow> bool" where
  "verbFits v a =
     (v = CHR ''v'' \<or>
      (case a of AString s \<Rightarrow> v = CHR ''s''
       | ABool b \<Rightarrow> v = CHR ''t''
       | AInt i \<Rightarrow> v = CHR ''d''))"

definition formatVerb :: "char \<Rightarrow> fmt_arg \<Rightarrow> string" where
  "formatVerb v a =
     (if verbFits v a then argValue a
      else ''%!'' @ [v] @ ''('' @ argType a @ ''='' @ argValue a @ '')'')"

fun extraArgs :: "fmt_arg list \<Rightarrow> string" where
  "extraArgs [] = []"
| "extraArgs [a] = argType a @ ''='' @ argValue a"
| "extraArgs (a # b # as) = argType a @ ''='' @ argValue a @ '', '' @ extraArgs (b # as)"

fun Sprintf :: "string \<Rightarrow> fmt_arg list \<Rightarrow> string" where
  "Sprintf [] args = (if args = [] then [] else ''%!(EXTRA '' @ extraArgs args @ '')'')"
| "Sprintf [c] args =
     (if c = CHR ''%'' then ''%!(NOVERB)'' @ Sprintf [] args else c # Sprintf [] args)"
| "Sprintf (c # v # cs) args =
     (if c \<noteq> CHR ''%'' then c # Sprintf (v # cs) args
      else if v = CHR ''%'' then CHR ''%'' # Sprintf cs args
      else (case args of
              [] \<Rightarrow> ''%!'' @ [v] @ ''(MISSING)'' @ Sprintf cs []
            | a # as \<Rightarrow> formatVerb v a @ Sprintf cs as))"


subsection \<open>The world outside the process\<close>

text \<open>
  What a child process does, as \<^verbatim>\<open>callProgramAndReadOutput\<close> sees it: the errors of
  \<^verbatim>\<open>exec.Command\<close>, of the two pipes and of \<^verbatim>\<open>Start\<close>, the lines the two scanners
  read, and the error of \<^verbatim>\<open>Wait\<close> (an abnormal exit).
\<close>

record proc =
  cmdErr :: "error option"
  stdoutPipeErr :: "error option"
  stderrPipeErr :: "error option"
  startErr :: "error option"
  stdoutLines :: "string list"
  stderrLines :: "string list"
  waitErr :: "error option"

datatype print_arg = PErr error | PStr string

text \<open>
  The effects, in the order they happen. The position of an event in the trace is its
  instant: \<open>EvCommand\<close> is the invocation of a program (\<^verbatim>\<open>exec.Command\<close> up to
  \<^verbatim>\<open>Start\<close>), \<open>EvWait\<close> its completion (\<^verbatim>\<open>Wait\<close> has returned), \<open>EvNow t\<close> a
  reading \<open>t\<close> of the clock by \<^verbatim>\<open>time.Now()\<close>.
\<close>

datatype event =
    EvCreateTemp string string
  | EvWriteString string string
  | EvChmod string nat
  | EvClose string
  | EvRemove string
  | EvCommand string "string list"
  | EvWait string "string list"
  | EvNow nat
  | EvReadFile string
  | EvPrintf string "print_arg list"
  | EvPrintln string

text \<open>
  The environment answers each request; the first argument of an answer is the instant
  of the request (the length of the trace before it), so that the same request can be
  answered differently at different times. \<open>clock E n\<close> is the time at instant \<open>n\<close>.
  \<^verbatim>\<open>time.Time.Format\<close>, \<^verbatim>\<open>json.Unmarshal\<close> into each of the three record types and
  \<^verbatim>\<open>uuid.Parse\<close> are library code outside the repository and are parameters too.
  Every request is answered: a call that blocks for ever is outside the model.
\<close>

record env =
  tempDir :: string
  createTemp :: "nat \<Rightarrow> string \<Rightarrow> string \<Rightarrow> string \<times> error option"
  writeString :: "nat \<Rightarrow> string \<Rightarrow> string \<Rightarrow> error option"
  chmod :: "nat \<Rightarrow> string \<Rightarrow> nat \<Rightarrow> error option"
  closeFile :: "nat \<Rightarrow> string \<Rightarrow> error option"
  removeFile :: "nat \<Rightarrow> string \<Rightarrow> error option"
  runProgram :: "nat \<Rightarrow> string \<Rightarrow> string list \<Rightarrow> proc"
  clock :: "nat \<Rightarrow> nat"
  formatTime :: "string \<Rightarrow> nat \<Rightarrow> string"
  readFile :: "nat \<Rightarrow> string \<Rightarrow> string \<times> error option"
  unmarshalScreen :: "string \<Rightarrow> error + Screen"
  unmarshalDesktop :: "string \<Rightarrow> error + Desktop"
  unmarshalWindow :: "string \<Rightarrow> error + Window"
  uuidParse :: "string \<Rightarrow> error + uuid"

type_synonym world = "event list"

type_synonym 'a io = "world \<Rightarrow> 'a outcome \<times> world"

definition ret :: "'a \<Rightarrow> 'a io" where
  "ret x = (\<lambda>w. (Returned x, w))"

definition goPanic :: "panic \<Rightarrow> 'a io" where
  "goPanic p = (\<lambda>w. (Panicked p, w))"

definition andThen :: "'a io \<Rightarrow> ('a \<Rightarrow> 'b io) \<Rightarrow> 'b io" where
  "andThen m f =
     (\<lambda>w. case m w of
            (Returned x, w') \<Rightarrow> f x w'
          | (Panicked p, w') \<Rightarrow> (Panicked p, w'))"

text \<open>One effect: the environment is asked at the current instant, the event is recorded.\<close>

definition effect :: "(nat \<Rightarrow> event \<times> 'a) \<Rightarrow> 'a io" where
  "effect f = (\<lambda>w. (Returned (snd (f (length w))), w @ [fst (f (length w))]))"

definition Printf :: "string \<Rightarrow> print_arg list \<Rightarrow> unit io" where
  "Printf format args = effect (\<lambda>n. (EvPrintf format args, ()))"

fun printLines :: "string list \<Rightarrow> unit io" where
  "printLines [] = ret ()"
| "printLines (l # ls) = andThen (Printf ''%s\<newline>'' [PStr l]) (\<lambda>_. printLines ls)"

fun PrintlnAll :: "string list \<Rightarrow> unit io" where
  "PrintlnAll [] = ret ()"
| "PrintlnAll (l # ls) = andThen (effect (\<lambda>n. (EvPrintln l, ()))) (\<lambda>_. PrintlnAll ls)"

text \<open>
  \<^verbatim>\<open>defer\<close>: the deferred function runs when the body returns or panics, and the
  body's outcome stands.
\<close>

definition deferring :: "unit io \<Rightarrow> 'a io \<Rightarrow> 'a io" where
  "deferring cleanup body =
     (\<lambda>w. case body w of
            (r, w') \<Rightarrow>
              (case cleanup w' of
                 (Returned u, w'') \<Rightarrow> (r, w'')
               | (Panicked p, w'') \<Rightarrow> (Panicked p, w'')))"

definition timeNow :: "env \<Rightarrow> nat io" where
  "timeNow E = effect (\<lambda>n. (EvNow (clock E n), clock E n))"

subsection \<open>Running programs\<close>

definition dbusSend :: string where
  "dbusSend = ''/usr/bin/dbus-send''"

definition journalCtl :: string where
  "journalCtl = ''/usr/bin/journalctl''"

text \<open>
  \<^verbatim>\<open>callProgramAndReadOutput\<close>. The error of \<^verbatim>\<open>StdoutPipe\<close> is overwritten by that
  of \<^verbatim>\<open>StderrPipe\<close>; when only the first fails, the scanner reads a nil reader.
\<close>

definition callProgramAndReadOutput ::
  "env \<Rightarrow> string \<Rightarrow> string list \<Rightarrow> (string list \<times> error option) io" where
  "callProgramAndReadOutput E command args =
     andThen (effect (\<lambda>n. (EvCommand command args, runProgram E n command args))) (\<lambda>p.
       case cmdErr p of Some e \<Rightarrow> ret ([], Some e) | None \<Rightarrow>
       (case stderrPipeErr p of Some e \<Rightarrow> ret ([], Some e) | None \<Rightarrow>
       (case startErr p of Some e \<Rightarrow> ret ([], Some e) | None \<Rightarrow>
       (case stdoutPipeErr p of Some e \<Rightarrow> goPanic NilPointerDereference | None \<Rightarrow>
          (let processOutput = stdoutLines p @ stderrLines p in
           andThen (effect (\<lambda>n. (EvWait command args, waitErr p))) (\<lambda>err.
             case err of
               Some e \<Rightarrow>
                 andThen (Printf ''Command finished with error: %v\<newline>'' [PErr e]) (\<lambda>_.
                 andThen (printLines processOutput) (\<lambda>_.
                 ret ([], Some e)))
             | None \<Rightarrow> ret (processOutput, None)))))))"

definition callDbusSend :: "env \<Rightarrow> string list \<Rightarrow> (string list \<times> error option) io" where
  "callDbusSend E args = callProgramAndReadOutput E dbusSend args"

text \<open>
  \<^verbatim>\<open>loadScript\<close>: \<open>loadScript_reply\<close> is what the function does with the reply once
  \<^verbatim>\<open>callDbusSend\<close> has returned it without error.
\<close>

definition loadScript_reply :: "string list \<Rightarrow> int \<times> error option" where
  "loadScript_reply output =
     (if length output \<noteq> 2 then (- 1, Some (ScriptLoadFailed output))
      else (let sa = Fields (output ! 1) in
            if length sa \<noteq> 2 then (- 1, Some (ScriptLoadFailed output))
            else (let sRegNo = sa ! 1 in
                  case Atoi sRegNo of
                    (iRegNo, Some e) \<Rightarrow> (- 1, Some e)
                  | (iRegNo, None) \<Rightarrow> (iRegNo, None))))"

definition loadScript :: "env \<Rightarrow> string \<Rightarrow> (int \<times> error option) io" where
  "loadScript E scriptPath =
     andThen (callDbusSend E
        [''--print-reply'', ''--dest=org.kde.KWin'', ''/Scripting'',
         ''org.kde.kwin.Scripting.loadScript'', ''string:'' @ scriptPath]) (\<lambda>(output, err).
       case err of
         Some e \<Rightarrow> ret (- 1, Some e)
       | None \<Rightarrow> ret (loadScript_reply output))"

definition runScript_args :: "int \<Rightarrow> string list" where
  "runScript_args scriptNo =
     [''--print-reply'', ''--dest=org.kde.KWin'',
      Sprintf ''/Scripting/Script%d'' [AInt scriptNo], ''org.kde.kwin.Script.run'']"

definition runScript :: "env \<Rightarrow> int \<Rightarrow> error option io" where
  "runScript E scriptNo =
     andThen (callDbusSend E (runScript_args scriptNo)) (\<lambda>(output, err). ret err)"

definition stopScript_args :: "int \<Rightarrow> string list" where
  "stopScript_args scriptNo =
     [''--print-reply'', ''--dest=org.kde.KWin'',
      Sprintf ''/Scripting/Script%d'' [AInt scriptNo], ''org.kde.kwin.Script.stop'']"

definition stopScript :: "env \<Rightarrow> int \<Rightarrow> error option io" where
  "stopScript E scriptNo =
     andThen (callDbusSend E (stopScript_args scriptNo)) (\<lambda>(output, err). ret err)"

definition getJournal_args :: "env \<Rightarrow> nat \<Rightarrow> nat \<Rightarrow> string list" where
  "getJournal_args E from to =
     (let format = ''2006-01-02 15:04:05.000000'';
          since = formatTime E format from;
          until = formatTime E format to
      in [''QT_CATEGORY=js'', ''QT_CATEGORY=kwin_scripting'', ''-o'', ''cat'',
          ''--since'', since, ''--until'', until, ''--no-pager''])"

definition getJournal :: "env \<Rightarrow> nat \<Rightarrow> nat \<Rightarrow> (string list \<times> error option) io" where
  "getJournal E from to =
     andThen (callProgramAndReadOutput E journalCtl (getJournal_args E from to))
       (\<lambda>(output, err).
          case err of
            Some e \<Rightarrow> ret ([], Some e)
          | None \<Rightarrow> ret (output, None))"

subsection \<open>The bridge: \<^verbatim>\<open>loadExecuteAndGetOutput\<close>\<close>

text \<open>
  The deferred function: close the script file, then remove it. (The file mode
  \<^verbatim>\<open>0777\<close> of the source is 511.)
\<close>

definition closeAndRemove :: "env \<Rightarrow> string \<Rightarrow> unit io" where
  "closeAndRemove E scriptFile =
     andThen (effect (\<lambda>n. (EvClose scriptFile, closeFile E n scriptFile))) (\<lambda>err.
       case err of
         Some e \<Rightarrow> Printf ''Error closing script file: %v\<newline>'' [PErr e]
       | None \<Rightarrow>
           andThen (effect (\<lambda>n. (EvRemove scriptFile, removeFile E n scriptFile))) (\<lambda>err.
             case err of
               Some e \<Rightarrow> Printf ''Error removing script file: %v\<newline>'' [PErr e]
             | None \<Rightarrow> ret ()))"

text \<open>The part of the function after the script has been registered as \<open>scriptNo\<close>.\<close>

definition runStopAndCollect :: "env \<Rightarrow> int \<Rightarrow> (string list \<times> error option) io" where
  "runStopAndCollect E scriptNo =
     andThen (timeNow E) (\<lambda>startTime.
     andThen (runScript E scriptNo) (\<lambda>err.
       case err of
         Some e \<Rightarrow>
           andThen (Printf ''Error running script: %v\<newline>'' [PErr e]) (\<lambda>_.
           ret ([], Some e))
       | None \<Rightarrow>
           andThen (stopScript E scriptNo) (\<lambda>err.
           andThen (timeNow E) (\<lambda>endTime.
             case err of
               Some e \<Rightarrow>
                 andThen (Printf ''Error stopping script: %v\<newline>'' [PErr e]) (\<lambda>_.
                 ret ([], Some e))
             | None \<Rightarrow>
                 andThen (getJournal E startTime endTime) (\<lambda>(journalOutput, err).
                   case err of
                     Some e \<Rightarrow>
                       andThen (Printf ''Error getting journal output: %v\<newline>'' [PErr e])
                         (\<lambda>_. ret ([], Some e))
                   | None \<Rightarrow> ret (journalOutput, None))))))"

definition loadExecuteAndGetOutput :: "env \<Rightarrow> string \<Rightarrow> (string list \<times> error option) io" where
  "loadExecuteAndGetOutput E script =
     andThen (effect (\<lambda>n. (EvCreateTemp (tempDir E) ''kwin_script_*.js'',
                           createTemp E n (tempDir E) ''kwin_script_*.js''))) (\<lambda>(scriptFile, err).
       case err of
         Some e \<Rightarrow> ret ([], Some e)
       | None \<Rightarrow>
           deferring (closeAndRemove E scriptFile)
            (andThen (effect (\<lambda>n. (EvWriteString scriptFile script,
                                   writeString E n scriptFile script))) (\<lambda>err.
               case err of
                 Some e \<Rightarrow>
                   andThen (Printf ''Error writing script file: %v\<newline>'' [PErr e]) (\<lambda>_.
                   ret ([], Some e))
               | None \<Rightarrow>
                   andThen (effect (\<lambda>n. (EvChmod scriptFile 511,
                                         chmod E n scriptFile 511))) (\<lambda>err.
                     case err of
                       Some e \<Rightarrow>
                         andThen (Printf ''Error chmod: %v\<newline>'' [PErr e]) (\<lambda>_.
                         ret ([], Some e))
                     | None \<Rightarrow>
                         andThen (loadScript E scriptFile) (\<lambda>(scriptNo, err).
                           case err of
                             Some e \<Rightarrow>
                               andThen (Printf ''Error loading script: %v\<newline>'' [PErr e])
                                 (\<lambda>_. ret ([], Some e))
                           | None \<Rightarrow> runStopAndCollect E scriptNo)))))"

subsection \<open>Process command lines\<close>

definition procCmdlinePath :: "int \<Rightarrow> string" where
  "procCmdlinePath processId = Sprintf ''/proc/%d/cmdline'' [AInt processId]"

definition getProcessCmdLine :: "env \<Rightarrow> int \<Rightarrow> (string \<times> error option) io" where
  "getProcessCmdLine E processId =
     (let proc = procCmdlinePath processId in
      andThen (effect (\<lambda>n. (EvReadFile proc, readFile E n proc))) (\<lambda>(cmdLine, err).
        case err of
          Some e \<Rightarrow>
            andThen (Printf ''Error reading process command line: %v\<newline>'' [PErr e]) (\<lambda>_.
            ret ([], Some e))
        | None \<Rightarrow> ret (TrimSpace (ReplaceAll cmdLine [CHR 0x00] [CHR 0x20]), None)))"

subsection \<open>Queries\<close>

text \<open>
  Each query runs its script through the bridge and decodes the journal lines in a loop.
  The body of a loop gives \<open>Inl e\<close> where the source returns \<^verbatim>\<open>nil, err\<close> and
  \<open>Inr m\<close>, the output map after the line, where the loop goes on.
\<close>

definition GetScreens_script :: string where
  "GetScreens_script =
     ''\<newline>'' @
     TAB @ ''for (var i = 0; i< workspace.screens.length; i++) {\<newline>'' @
     TAB @ TAB @ ''var screen = workspace.screens[i]\<newline>'' @
     TAB @ TAB @ ''var out = '' @ DQ @ ''{'' @ DQ @ ''\<newline>'' @
     TAB @ TAB @ ''out += '' @ DQ @ BSL @ DQ @ ''name'' @ BSL @ DQ @ '': '' @ BSL @ DQ @ DQ @ ''+screen.name+'' @ DQ @ BSL @ DQ @ '','' @ DQ @ ''\<newline>'' @
     TAB @ TAB @ ''out += '' @ DQ @ BSL @ DQ @ ''manufacturer'' @ BSL @ DQ @ '': '' @ BSL @ DQ @ DQ @ ''+screen.manufacturer+'' @ DQ @ BSL @ DQ @ '','' @ DQ @ ''\<newline>'' @
     TAB @ TAB @ ''out += '' @ DQ @ BSL @ DQ @ ''model'' @ BSL @ DQ @ '': '' @ BSL @ DQ @ DQ @ ''+screen.model+'' @ DQ @ BSL @ DQ @ '','' @ DQ @ ''\<newline>'' @
     TAB @ TAB @ ''out += '' @ DQ @ BSL @ DQ @ ''serial'' @ BSL @ DQ @ '': '' @ BSL @ DQ @ DQ @ ''+screen.serialNumber+'' @ DQ @ BSL @ DQ @ '','' @ DQ @ ''\<newline>'' @
     TAB @ TAB @ ''out += '' @ DQ @ BSL @ DQ @ ''pixelRatio'' @ BSL @ DQ @ '': '' @ DQ @ ''+screen.devicePixelRatio+'' @ DQ @ '','' @ DQ @ ''\<newline>'' @
     TAB @ TAB @ ''out += '' @ DQ @ BSL @ DQ @ ''geometry'' @ BSL @ DQ @ '': {'' @ DQ @ ''\<newline>'' @
     TAB @ TAB @ ''out += '' @ DQ @ BSL @ DQ @ ''topLeft'' @ BSL @ DQ @ '': {'' @ DQ @ ''\<newline>'' @
     TAB @ TAB @ ''out += '' @ DQ @ BSL @ DQ @ ''x'' @ BSL @ DQ @ '':'' @ DQ @ ''+screen.geometry.left+'' @ DQ @ '','' @ DQ @ ''\<newline>'' @
     TAB @ TAB @ ''out += '' @ DQ @ BSL @ DQ @ ''y'' @ BSL @ DQ @ '':'' @ DQ @ ''+screen.geometry.top\<newline>'' @
     TAB @ TAB @ ''out += '' @ DQ @ ''},'' @ DQ @ ''\<newline>'' @
     TAB @ TAB @ ''out += '' @ DQ @ BSL @ DQ @ ''bottomRight'' @ BSL @ DQ @ '': {'' @ DQ @ ''\<newline>'' @
     TAB @ TAB @ ''out += '' @ DQ @ BSL @ DQ @ ''x'' @ BSL @ DQ @ '':'' @ DQ @ ''+screen.geometry.right+'' @ DQ @ '','' @ DQ @ ''\<newline>'' @
     TAB @ TAB @ ''out += '' @ DQ @ BSL @ DQ @ ''y'' @ BSL @ DQ @ '':'' @ DQ @ ''+screen.geometry.bottom\<newline>'' @
     TAB @ TAB @ ''out += '' @ DQ @ ''}'' @ DQ @ ''\<newline>'' @
     TAB @ TAB @ ''out += '' @ DQ @ ''}'' @ DQ @ ''\<newline>'' @
     TAB @ TAB @ ''out += '' @ DQ @ ''}'' @ DQ @ ''\<newline>'' @
     TAB @ TAB @ ''print(out)\<newline>'' @
     TAB @ ''}''"

definition GetScreens_body ::
  "env \<Rightarrow> string \<Rightarrow> (string \<rightharpoonup> Screen) \<Rightarrow> error + (string \<rightharpoonup> Screen)" where
  "GetScreens_body E s outputMap =
     (let ss = ReplaceAll s ''js: '' [] in
      case unmarshalScreen E ss of
        Inl e \<Rightarrow> Inl e
      | Inr d \<Rightarrow> Inr (outputMap(Screen.Name d \<mapsto> d)))"

fun GetScreens_loop ::
  "env \<Rightarrow> string list \<Rightarrow> (string \<rightharpoonup> Screen) \<Rightarrow> (string \<rightharpoonup> Screen) option \<times> error option" where
  "GetScreens_loop E [] outputMap = (Some outputMap, None)"
| "GetScreens_loop E (s # rest) outputMap =
     (case GetScreens_body E s outputMap of
        Inl e \<Rightarrow> (None, Some e)
      | Inr m \<Rightarrow> GetScreens_loop E rest m)"

definition GetScreens :: "env \<Rightarrow> ((string \<rightharpoonup> Screen) option \<times> error option) io" where
  "GetScreens E =
     andThen (loadExecuteAndGetOutput E GetScreens_script) (\<lambda>(output, err).
       case err of
         Some e \<Rightarrow>
           andThen (Printf ''Error running script for screens list: %v\<newline>'' [PErr e]) (\<lambda>_.
           ret (None, Some e))
       | None \<Rightarrow> ret (GetScreens_loop E output Map.empty))"

definition GetDesktops_script :: string where
  "GetDesktops_script =
     ''\<newline>'' @
     TAB @ ''for (var i = 0; i < workspace.desktops.length; i++) {\<newline>'' @
     TAB @ TAB @ ''var desktop = workspace.desktops[i]\<newline>'' @
     TAB @ TAB @ ''var out = '' @ DQ @ ''{'' @ DQ @ ''\<newline>'' @
     TAB @ TAB @ ''out += '' @ DQ @ BSL @ DQ @ ''id'' @ BSL @ DQ @ '': '' @ BSL @ DQ @ DQ @ ''+desktop.id+'' @ DQ @ BSL @ DQ @ '','' @ DQ @ ''\<newline>'' @
     TAB @ TAB @ ''out += '' @ DQ @ BSL @ DQ @ ''index'' @ BSL @ DQ @ '': '' @ DQ @ ''+i+'' @ DQ @ '','' @ DQ @ ''\<newline>'' @
     TAB @ TAB @ ''out += '' @ DQ @ BSL @ DQ @ ''name'' @ BSL @ DQ @ '': '' @ BSL @ DQ @ DQ @ ''+desktop.name+'' @ DQ @ BSL @ DQ @ '','' @ DQ @ ''\<newline>'' @
     TAB @ TAB @ ''out += '' @ DQ @ BSL @ DQ @ ''x11Number'' @ BSL @ DQ @ '': '' @ DQ @ ''+desktop.x11DesktopNumber\<newline>'' @
     TAB @ TAB @ ''out += '' @ DQ @ ''}'' @ DQ @ ''\<newline>'' @
     TAB @ TAB @ ''print(out)\<newline>'' @
     TAB @ ''}''"

text \<open>\<^verbatim>\<open>uuid.MustParse\<close> panics where \<^verbatim>\<open>uuid.Parse\<close> returns an error.\<close>

definition MustParse :: "env \<Rightarrow> string \<Rightarrow> uuid outcome" where
  "MustParse E s =
     (case uuidParse E s of
        Inl e \<Rightarrow> Panicked (MustParseFailed s e)
      | Inr u \<Rightarrow> Returned u)"

definition GetDesktops_body ::
  "env \<Rightarrow> string \<Rightarrow> (uuid \<rightharpoonup> Desktop) \<Rightarrow> (error + (uuid \<rightharpoonup> Desktop)) outcome" where
  "GetDesktops_body E s outputMap =
     (let ss = ReplaceAll s ''js: '' [] in
      case unmarshalDesktop E ss of
        Inl e \<Rightarrow> Returned (Inl e)
      | Inr d \<Rightarrow>
          (case MustParse E (Desktop.Id d) of
             Panicked p \<Rightarrow> Panicked p
           | Returned u \<Rightarrow> Returned (Inr (outputMap(u \<mapsto> d)))))"

fun GetDesktops_loop ::
  "env \<Rightarrow> string list \<Rightarrow> (uuid \<rightharpoonup> Desktop) \<Rightarrow>
   ((uuid \<rightharpoonup> Desktop) option \<times> error option) outcome" where
  "GetDesktops_loop E [] outputMap = Returned (Some outputMap, None)"
| "GetDesktops_loop E (s # rest) outputMap =
     (case GetDesktops_body E s outputMap of
        Panicked p \<Rightarrow> Panicked p
      | Returned (Inl e) \<Rightarrow> Returned (None, Some e)
      | Returned (Inr m) \<Rightarrow> GetDesktops_loop E rest m)"

definition GetDesktops :: "env \<Rightarrow> ((uuid \<rightharpoonup> Desktop) option \<times> error option) io" where
  "GetDesktops E =
     andThen (loadExecuteAndGetOutput E GetDesktops_script) (\<lambda>(output, err).
       case err of
         Some e \<Rightarrow>
           andThen (Printf ''Error running script for desktops list: %v\<newline>'' [PErr e]) (\<lambda>_.
           ret (None, Some e))
       | None \<Rightarrow> (\<lambda>w. (GetDesktops_loop E output Map.empty, w)))"

definition GetWindows_script :: string where
  "GetWindows_script =
     ''\<newline>'' @
     TAB @ ''for (const window of workspace.windowList()) {\<newline>'' @
     TAB @ TAB @ ''if (window.specialWindow) {\<newline>'' @
     TAB @ TAB @ TAB @ ''continue;\<newline>'' @
     TAB @ TAB @ ''}\<newline>'' @
     TAB @ TAB @ ''var out = '' @ DQ @ ''{'' @ DQ @ ''\<newline>'' @
     TAB @ TAB @ ''out += '' @ DQ @ BSL @ DQ @ ''id'' @ BSL @ DQ @ '': '' @ BSL @ DQ @ DQ @ ''+window.internalId.toString().replace(/{/, '' @ DQ @ DQ @ '').replace(/}/, '' @ DQ @ DQ @ '')+'' @ DQ @ BSL @ DQ @ '','' @ DQ @ ''\<newline>'' @
     TAB @ TAB @ ''out += '' @ DQ @ BSL @ DQ @ ''caption'' @ BSL @ DQ @ '': '' @ BSL @ DQ @ DQ @ ''+window.caption.replace(/'' @ BSL @ DQ @ ''/g, '' @ DQ @ DQ @ '')+'' @ DQ @ BSL @ DQ @ '','' @ DQ @ ''\<newline>'' @
     TAB @ TAB @ ''out += '' @ DQ @ BSL @ DQ @ ''pid'' @ BSL @ DQ @ '': '' @ DQ @ ''+window.pid+'' @ DQ @ '','' @ DQ @ ''\<newline>'' @
     TAB @ TAB @ ''out += '' @ DQ @ BSL @ DQ @ ''x'' @ BSL @ DQ @ '': '' @ DQ @ ''+window.x+'' @ DQ @ '','' @ DQ @ ''\<newline>'' @
     TAB @ TAB @ ''out += '' @ DQ @ BSL @ DQ @ ''y'' @ BSL @ DQ @ '': '' @ DQ @ ''+window.y+'' @ DQ @ '','' @ DQ @ ''\<newline>'' @
     TAB @ TAB @ ''out += '' @ DQ @ BSL @ DQ @ ''width'' @ BSL @ DQ @ '': '' @ DQ @ ''+window.width+'' @ DQ @ '','' @ DQ @ ''\<newline>'' @
     TAB @ TAB @ ''out += '' @ DQ @ BSL @ DQ @ ''height'' @ BSL @ DQ @ '': '' @ DQ @ ''+window.height+'' @ DQ @ '','' @ DQ @ ''\<newline>'' @
     TAB @ TAB @ ''out += '' @ DQ @ BSL @ DQ @ ''fullScreen'' @ BSL @ DQ @ '': '' @ DQ @ ''+window.fullScreen+'' @ DQ @ '','' @ DQ @ ''\<newline>'' @
     TAB @ TAB @ ''out += '' @ DQ @ BSL @ DQ @ ''onAllDesktops'' @ BSL @ DQ @ '': '' @ DQ @ ''+window.onAllDesktops+'' @ DQ @ '','' @ DQ @ ''\<newline>'' @
     TAB @ TAB @ ''out += '' @ DQ @ BSL @ DQ @ ''keepAbove'' @ BSL @ DQ @ '': '' @ DQ @ ''+window.keepAbove+'' @ DQ @ '','' @ DQ @ ''\<newline>'' @
     TAB @ TAB @ ''out += '' @ DQ @ BSL @ DQ @ ''keepBelow'' @ BSL @ DQ @ '': '' @ DQ @ ''+window.keepBelow+'' @ DQ @ '','' @ DQ @ ''\<newline>'' @
     TAB @ TAB @ ''out += '' @ DQ @ BSL @ DQ @ ''minimized'' @ BSL @ DQ @ '': '' @ DQ @ ''+window.minimized+'' @ DQ @ '','' @ DQ @ ''\<newline>'' @
     ''    '' @ TAB @ ''out += '' @ DQ @ BSL @ DQ @ ''demandsAttention'' @ BSL @ DQ @ '': '' @ DQ @ ''+window.demandsAttention+'' @ DQ @ '','' @ DQ @ ''\<newline>'' @
     ''        out += '' @ DQ @ BSL @ DQ @ ''desktopIds'' @ BSL @ DQ @ '': ['' @ DQ @ ''\<newline>'' @
     ''        for (var i = 0; i < window.desktops.length; i++) {\<newline>'' @
     ''            d = window.desktops[i];\<newline>'' @
     ''            out += '' @ DQ @ BSL @ DQ @ DQ @ ''+d.id+'' @ DQ @ BSL @ DQ @ DQ @ '';\<newline>'' @
     ''            if (i < window.desktops.length-1) {\<newline>'' @
     ''                out += '' @ DQ @ '','' @ DQ @ ''\<newline>'' @
     ''            }\<newline>'' @
     ''        }\<newline>'' @
     ''        out += '' @ DQ @ '']'' @ DQ @ ''\<newline>'' @
     TAB @ TAB @ ''out += '' @ DQ @ ''}'' @ DQ @ ''\<newline>'' @
     TAB @ TAB @ ''print(out)\<newline>'' @
     TAB @ ''}''"

text \<open>Indexing a Go map gives the zero value for a key that is not in it.\<close>

definition lookupDesktop :: "(uuid \<rightharpoonup> Desktop) \<Rightarrow> uuid \<Rightarrow> Desktop" where
  "lookupDesktop desktops k = (case desktops k of None \<Rightarrow> zeroDesktop | Some d \<Rightarrow> d)"

text \<open>
  Lines 411 to 416: with a non-nil map, \<^verbatim>\<open>d.Desktops\<close> is made as long as
  \<^verbatim>\<open>d.DesktopIds\<close> and filled position by position.
\<close>

definition resolveDesktops :: "(uuid \<rightharpoonup> Desktop) option \<Rightarrow> Window \<Rightarrow> Window" where
  "resolveDesktops desktops d =
     (case desktops of
        None \<Rightarrow> d
      | Some m \<Rightarrow> d\<lparr>Window.Desktops := map (lookupDesktop m) (DesktopIds d)\<rparr>)"

definition GetWindows_body ::
  "env \<Rightarrow> (uuid \<rightharpoonup> Desktop) option \<Rightarrow> string \<Rightarrow> (uuid \<rightharpoonup> Window) \<Rightarrow>
   (error + (uuid \<rightharpoonup> Window)) io" where
  "GetWindows_body E desktops s outputMap =
     (let ss = ReplaceAll s ''js: '' [] in
      case unmarshalWindow E ss of
        Inl e \<Rightarrow> ret (Inl e)
      | Inr d \<Rightarrow>
          andThen (getProcessCmdLine E (Pid d)) (\<lambda>(rawCmdLine, err).
            case err of
              Some e \<Rightarrow>
                andThen (Printf (''Can'' @ [CHR 0x27] @ ''t process windows list: %v\<newline>'') [PErr e]) (\<lambda>_.
                ret (Inl e))
            | None \<Rightarrow>
                (case Fields rawCmdLine of
                   [] \<Rightarrow> goPanic (IndexOutOfRange 0 0)
                 | cmdLine # _ \<Rightarrow>
                     (let d1 = d\<lparr>CmdLine := cmdLine\<rparr>;
                          saCmdLine = Split cmdLine ''/'';
                          appName = TrimSpace (last saCmdLine);
                          d2 = d1\<lparr>AppName := appName\<rparr>;
                          d3 = resolveDesktops desktops d2
                      in case MustParse E (Window.Id d3) of
                           Panicked p \<Rightarrow> goPanic p
                         | Returned u \<Rightarrow> ret (Inr (outputMap(u \<mapsto> d3)))))))"


fun GetWindows_loop ::
  "env \<Rightarrow> (uuid \<rightharpoonup> Desktop) option \<Rightarrow> string list \<Rightarrow> (uuid \<rightharpoonup> Window) \<Rightarrow>
   ((uuid \<rightharpoonup> Window) option \<times> error option) io" where
  "GetWindows_loop E desktops [] outputMap w = (Returned (Some outputMap, None), w)"
| "GetWindows_loop E desktops (s # rest) outputMap w =
     (case GetWindows_body E desktops s outputMap w of
        (Panicked p, w') \<Rightarrow> (Panicked p, w')
      | (Returned (Inl e), w') \<Rightarrow> (Returned (None, Some e), w')
      | (Returned (Inr m), w') \<Rightarrow> GetWindows_loop E desktops rest m w')"

definition GetWindows ::
  "env \<Rightarrow> (uuid \<rightharpoonup> Desktop) option \<Rightarrow> ((uuid \<rightharpoonup> Window) option \<times> error option) io" where
  "GetWindows E desktops =
     andThen (loadExecuteAndGetOutput E GetWindows_script) (\<lambda>(output, err).
       case err of
         Some e \<Rightarrow>
           andThen (Printf ''Error running script for windows list: %v\<newline>'' [PErr e]) (\<lambda>_.
           ret (None, Some e))
       | None \<Rightarrow> GetWindows_loop E desktops output Map.empty)"

subsection \<open>\<^verbatim>\<open>GetEnvironment\<close>\<close>

definition GetEnvironment :: "env \<Rightarrow> (Environment \<times> error option) io" where
  "GetEnvironment E =
     andThen (GetScreens E) (\<lambda>(screens, err).
       case err of
         Some e \<Rightarrow>
           andThen (Printf ''Error getting screens: %v\<newline>'' [PErr e]) (\<lambda>_.
           ret (zeroEnvironment, Some e))
       | None \<Rightarrow>
           andThen (GetDesktops E) (\<lambda>(desktops, err).
             case err of
               Some e \<Rightarrow>
                 andThen (Printf ''Error getting desktops: %v\<newline>'' [PErr e]) (\<lambda>_.
                 ret (zeroEnvironment, Some e))
             | None \<Rightarrow>
                 andThen (GetWindows E desktops) (\<lambda>(windows, err).
                   case err of
                     Some e \<Rightarrow>
                       andThen (Printf ''Error getting windows: %v\<newline>'' [PErr e]) (\<lambda>_.
                       ret (zeroEnvironment, Some e))
                   | None \<Rightarrow>
                       ret (\<lparr>Screens = screens, Environment.Desktops = desktops,
                             Windows = windows\<rparr>, None))))"

subsection \<open>\<^verbatim>\<open>SetWindowDemandsAttention\<close>\<close>

definition SetWindowDemandsAttention_script :: string where
  "SetWindowDemandsAttention_script =
     ''\<newline>'' @
     TAB @ TAB @ ''windowId = '' @ DQ @ ''%s'' @ DQ @ '';\<newline>'' @
     TAB @ TAB @ ''for (const window of workspace.windowList()) {\<newline>'' @
     TAB @ TAB @ TAB @ ''var w = undefined;\<newline>'' @
     TAB @ TAB @ TAB @ ''for (const window of workspace.windowList()) {\<newline>'' @
     TAB @ TAB @ TAB @ TAB @ ''wid = window.internalId.toString().replace(/{/, '' @ DQ @ DQ @ '').replace(/}/, '' @ DQ @ DQ @ '');\<newline>'' @
     TAB @ TAB @ TAB @ TAB @ ''if (wid === windowId) {\<newline>'' @
     TAB @ TAB @ TAB @ TAB @ TAB @ ''w = window;\<newline>'' @
     TAB @ TAB @ TAB @ TAB @ TAB @ ''break;\<newline>'' @
     TAB @ TAB @ TAB @ TAB @ ''}\<newline>'' @
     TAB @ TAB @ TAB @ ''}\<newline>'' @
     TAB @ TAB @ TAB @ ''if (w) {\<newline>'' @
     TAB @ TAB @ TAB @ TAB @ ''w.demandsAttention = %s;\<newline>'' @
     TAB @ TAB @ TAB @ ''}\<newline>'' @
     TAB @ TAB @ ''}''"

definition SetWindowDemandsAttention_command :: "Window \<Rightarrow> bool \<Rightarrow> string" where
  "SetWindowDemandsAttention_command w demandsAttention =
     Sprintf SetWindowDemandsAttention_script [AString (Window.Id w), ABool demandsAttention]"

definition SetWindowDemandsAttention :: "env \<Rightarrow> Window \<Rightarrow> bool \<Rightarrow> error option io" where
  "SetWindowDemandsAttention E w demandsAttention =
     (let command = SetWindowDemandsAttention_command w demandsAttention in
      andThen (loadExecuteAndGetOutput E command) (\<lambda>(output, err).
      andThen (PrintlnAll output) (\<lambda>_.
      ret err)))"

subsection \<open>Sample environments\<close>

text \<open>
  Concrete environments on which the theorems below are exercised. Every file operation
  succeeds, the clock advances by one at every instant, and the four programs the bridge
  runs (load, run, stop, journal) behave as given; what the journal query does may depend
  on the instant at which it is invoked.
\<close>

definition procOK :: "string list \<Rightarrow> proc" where
  "procOK out =
     \<lparr>cmdErr = None, stdoutPipeErr = None, stderrPipeErr = None, startErr = None,
      stdoutLines = out, stderrLines = [], waitErr = None\<rparr>"

definition procExits :: "string list \<Rightarrow> string list \<Rightarrow> error \<Rightarrow> proc" where
  "procExits out errout e =
     \<lparr>cmdErr = None, stdoutPipeErr = None, stderrPipeErr = None, startErr = None,
      stdoutLines = out, stderrLines = errout, waitErr = Some e\<rparr>"

definition loadReply :: "string list" where
  "loadReply =
     [''method return time=1700000000.000000 sender=:1.23 -> destination=:1.99 serial=100 reply_serial=2'',
      ''   int32 7'']"

definition uuidA :: uuid where "uuidA = UUID (replicate 16 (CHR 0x11))"
definition uuidB :: uuid where "uuidB = UUID (replicate 16 (CHR 0x33))"
definition uuidW :: uuid where "uuidW = UUID (replicate 16 (CHR 0x22))"

definition idA :: string where "idA = ''11111111-1111-1111-1111-111111111111''"
definition idB :: string where "idB = ''33333333-3333-3333-3333-333333333333''"
definition idW :: string where "idW = ''22222222-2222-2222-2222-222222222222''"

definition sampleUuidParse :: "string \<Rightarrow> error + uuid" where
  "sampleUuidParse s =
     (if s = idA then Inr uuidA
      else if s = idB then Inr uuidB
      else if s = idW then Inr uuidW
      else Inl (OSError ''invalid UUID format''))"

definition sampleDesktopJSON :: "string \<Rightarrow> string" where
  "sampleDesktopJSON ident =
     ''{'' @ DQ @ ''id'' @ DQ @ '': '' @ DQ @ ident @ DQ @ '','' @ DQ @ ''index'' @ DQ @ '': 0,'' @ DQ @ ''name'' @ DQ @ '': '' @ DQ @ ''Desktop 1'' @ DQ @ '','' @ DQ @ ''x11Number'' @ DQ @ '': 1}''"

definition sampleDesktop :: "string \<Rightarrow> Desktop" where
  "sampleDesktop ident =
     \<lparr>Desktop.Id = ident, Index = 0, Desktop.Name = ''Desktop 1'', X11Number = 1\<rparr>"

definition sampleWindowJSON :: "string \<Rightarrow> string" where
  "sampleWindowJSON ident =
     ''{'' @ DQ @ ''id'' @ DQ @ '': '' @ DQ @ ident @ DQ @ '','' @ DQ @ ''caption'' @ DQ @ '': '' @ DQ @ ''Terminal'' @ DQ @ '','' @ DQ @ ''pid'' @ DQ @ '': 4242,'' @ DQ @ ''x'' @ DQ @ '': 0,'' @ DQ @ ''y'' @ DQ @ '': 0,'' @ DQ @ ''width'' @ DQ @ '': 800,'' @ DQ @ ''height'' @ DQ @ '': 600,'' @ DQ @ ''fullScreen'' @ DQ @ '': false,'' @ DQ @ ''onAllDesktops'' @ DQ @ '': false,'' @ DQ @ ''keepAbove'' @ DQ @ '': false,'' @ DQ @ ''keepBelow'' @ DQ @ '': false,'' @ DQ @ ''minimized'' @ DQ @ '': false,'' @ DQ @ ''demandsAttention'' @ DQ @ '': false,'' @ DQ @ ''desktopIds'' @ DQ @ '': ['' @ DQ @ idA @ DQ @ '','' @ DQ @ idB @ DQ @ '']}''"

definition sampleWindow :: "string \<Rightarrow> Window" where
  "sampleWindow ident =
     \<lparr>Window.Id = ident, Caption = ''Terminal'', Pid = 4242, CmdLine = [], AppName = [],
      Window.X = 0, Window.Y = 0, Width = 800, Height = 600, Fullscreen = False,
      OnAllDesktops = False, KeepAbove = False, KeepBelow = False, Minimized = False,
      DesktopIds = [uuidA, uuidB], Window.Desktops = [], DemandsAttention = False\<rparr>"

text \<open>
  The decoders of the sample environment are tables: they give the records that
  \<^verbatim>\<open>json.Unmarshal\<close> gives for the sample lines, with a well-formed identifier
  (\<open>idA\<close>, \<open>idW\<close>) and with the malformed identifier \<^verbatim>\<open>not-a-uuid\<close>. Any other text
  is answered with an error; of such texts the sample runs below only decode the
  truncated line \<^verbatim>\<open>{\<close>, which \<^verbatim>\<open>json.Unmarshal\<close> rejects too.
\<close>

definition sampleScreenJSON :: string where
  "sampleScreenJSON =
     ''{'' @ DQ @ ''name'' @ DQ @ '': '' @ DQ @ ''DP-1'' @ DQ @ '','' @ DQ @ ''manufacturer'' @ DQ @ '': '' @ DQ @ ''Dell'' @ DQ @ '','' @ DQ @ ''model'' @ DQ @ '': '' @ DQ @ ''U2720Q'' @ DQ @ '','' @ DQ @ ''serial'' @ DQ @ '': '' @ DQ @ ''ABC123'' @ DQ @ '','' @ DQ @ ''pixelRatio'' @ DQ @ '': 1,'' @ DQ @ ''geometry'' @ DQ @ '': {'' @ DQ @ ''topLeft'' @ DQ @ '': {'' @ DQ @ ''x'' @ DQ @ '':0,'' @ DQ @ ''y'' @ DQ @ '':0},'' @ DQ @ ''bottomRight'' @ DQ @ '': {'' @ DQ @ ''x'' @ DQ @ '':2560,'' @ DQ @ ''y'' @ DQ @ '':1440}}}''"

definition sampleScreen :: Screen where
  "sampleScreen =
     \<lparr>Screen.Name = ''DP-1'',
      Geometry = \<lparr>TopLeft = \<lparr>Point.X = 0, Point.Y = 0\<rparr>,
                  BottomRight = \<lparr>Point.X = 2560, Point.Y = 1440\<rparr>\<rparr>,
      Manufacturer = ''Dell'', Model = ''U2720Q'', SerialNumber = ''ABC123'', PixelRatio = 1\<rparr>"

definition sampleUnmarshalScreen :: "string \<Rightarrow> error + Screen" where
  "sampleUnmarshalScreen s =
     (if s = sampleScreenJSON then Inr sampleScreen else Inl (DecodeError s))"

definition sampleUnmarshalDesktop :: "string \<Rightarrow> error + Desktop" where
  "sampleUnmarshalDesktop s =
     (if s = sampleDesktopJSON idA then Inr (sampleDesktop idA)
      else if s = sampleDesktopJSON ''not-a-uuid'' then Inr (sampleDesktop ''not-a-uuid'')
      else Inl (DecodeError s))"

definition sampleUnmarshalWindow :: "string \<Rightarrow> error + Window" where
  "sampleUnmarshalWindow s =
     (if s = sampleWindowJSON idW then Inr (sampleWindow idW)
      else if s = sampleWindowJSON ''not-a-uuid'' then Inr (sampleWindow ''not-a-uuid'')
      else Inl (DecodeError s))"

definition scriptedEnv ::
  "proc \<Rightarrow> proc \<Rightarrow> proc \<Rightarrow> (nat \<Rightarrow> proc) \<Rightarrow> string \<times> error option \<Rightarrow> env" where
  "scriptedEnv pLoad pRun pStop pJournal cmdline =
     \<lparr>tempDir = ''/tmp'',
      createTemp = (\<lambda>n dir pattern. (''/tmp/kwin_script_42.js'', None)),
      writeString = (\<lambda>n file text. None),
      chmod = (\<lambda>n file mode. None),
      closeFile = (\<lambda>n file. None),
      removeFile = (\<lambda>n file. None),
      runProgram = (\<lambda>n command args.
        if command = journalCtl then pJournal n
        else if last args = ''org.kde.kwin.Script.run'' then pRun
        else if last args = ''org.kde.kwin.Script.stop'' then pStop
        else pLoad),
      clock = (\<lambda>n. n),
      formatTime = (\<lambda>layout t. replicate t (CHR ''t'')),
      readFile = (\<lambda>n path. cmdline),
      unmarshalScreen = sampleUnmarshalScreen,
      unmarshalDesktop = sampleUnmarshalDesktop,
      unmarshalWindow = sampleUnmarshalWindow,
      uuidParse = sampleUuidParse\<rparr>"

text \<open>
  Four runs: every program succeeds and the journal is empty; the run call exits
  abnormally; the journal holds a desktop line, and a window line, with a malformed
  identifier (the window's process was started as \<^verbatim>\<open>/usr/bin/konsole --profile\<close>).
\<close>

definition quietEnv :: env where
  "quietEnv = scriptedEnv (procOK loadReply) (procOK []) (procOK []) (\<lambda>n. procOK []) ([], None)"

definition runFailsEnv :: env where
  "runFailsEnv =
     scriptedEnv (procOK loadReply)
       (procExits [] [''Error org.freedesktop.DBus.Error.NoReply: Message recipient disconnected'']
          (OSError ''exit status 1''))
       (procOK []) (\<lambda>n. procOK []) ([], None)"

definition badDesktopEnv :: env where
  "badDesktopEnv =
     scriptedEnv (procOK loadReply) (procOK []) (procOK [])
       (\<lambda>n. procOK [''js: '' @ sampleDesktopJSON ''not-a-uuid'']) ([], None)"

definition badWindowEnv :: env where
  "badWindowEnv =
     scriptedEnv (procOK loadReply) (procOK []) (procOK [])
       (\<lambda>n. procOK [''js: '' @ sampleWindowJSON ''not-a-uuid''])
       (''/usr/bin/konsole'' @ [CHR 0x00] @ ''--profile'' @ [CHR 0x00], None)"

subsection \<open>Events of a computation\<close>

text \<open>\<open>onlyEvents P m\<close>: whatever the trace before, \<open>m\<close> only appends events that satisfy \<open>P\<close>.\<close>

definition onlyEvents :: "(event \<Rightarrow> bool) \<Rightarrow> 'a io \<Rightarrow> bool" where
  "onlyEvents P m = (\<forall>w. \<exists>evs. snd (m w) = w @ evs \<and> list_all P evs)"

text \<open>An event that is not the writing of the script text \<open>s\<close> to a file.\<close>

definition otherScript :: "string \<Rightarrow> event \<Rightarrow> bool" where
  "otherScript s e = (case e of EvWriteString f c \<Rightarrow> c \<noteq> s | _ \<Rightarrow> True)"

section \<open>Properties\<close>

subsection \<open>Replacing the logging prefix\<close>

text \<open>
  The pattern \<^verbatim>\<open>"js: "\<close> cannot overlap itself, so every occurrence in a line is
  removed, wherever it stands.
\<close>

lemma replaceAux_match:
  "old \<noteq> [] \<Longrightarrow> take (length old) (c # cs) = old \<Longrightarrow>
   replaceAux old new 0 (c # cs) = new @ replaceAux old new (length old - 1) cs"
  by simp

lemma replaceAux_nomatch:
  "old \<noteq> [] \<Longrightarrow> take (length old) (c # cs) \<noteq> old \<Longrightarrow>
   replaceAux old new 0 (c # cs) = c # replaceAux old new 0 cs"
  by simp

lemma replaceAux_skip:
  "replaceAux old new (length ps) (ps @ s) = replaceAux old new 0 s"
  by (induction ps) simp_all

lemma js_no_straddle:
  assumes "take 4 (c # cs @ ''js: '' @ v) = ''js: ''"
  shows "3 \<le> length cs"
proof (rule ccontr)
  assume "\<not> 3 \<le> length cs"
  then consider "cs = []" | d where "cs = [d]" | d e where "cs = [d, e]"
    by (cases cs; cases "tl cs"; cases "tl (tl cs)") auto
  then show False using assms by cases auto
qed

lemma replaceAux_js_append:
  "k \<le> length u \<Longrightarrow>
   replaceAux ''js: '' [] k (u @ ''js: '' @ v) =
   replaceAux ''js: '' [] k u @ replaceAux ''js: '' [] 0 v"
proof (induction u arbitrary: k)
  case Nil
  then have "k = 0" by simp
  moreover have "replaceAux ''js: '' [] 0 (''js: '' @ v) = replaceAux ''js: '' [] 0 v"
    using replaceAux_skip [of "''js: ''" "[]" "''s: ''" v]
    by (simp add: eval_nat_numeral)
  ultimately show ?case by simp
next
  case (Cons c cs)
  define pat where "pat = ''js: ''"
  have pat: "pat \<noteq> []" "length pat = 4" "length pat - 1 = 3"
    by (simp_all add: pat_def)
  show ?case
  proof (cases k)
    case (Suc k')
    with Cons.prems have "k' \<le> length cs" by simp
    from Cons.IH [OF this] show ?thesis using Suc by simp
  next
    case 0
    show ?thesis
    proof (cases "take 4 (c # cs @ pat @ v) = pat")
      case True
      then have len: "3 \<le> length cs" 
        using js_no_straddle [of c cs v] by (simp only: pat_def)
      then have "take 4 (c # cs) = take 4 (c # cs @ pat @ v)" by simp
      with True have t: "take 4 (c # cs) = pat" by simp
      have l: "replaceAux pat [] 0 (c # cs @ pat @ v) = replaceAux pat [] 3 (cs @ pat @ v)"
        using replaceAux_match [of pat c "cs @ pat @ v" "[]"] True pat by simp
      have r: "replaceAux pat [] 0 (c # cs) = replaceAux pat [] 3 cs"
        using replaceAux_match [of pat c cs "[]"] t pat by simp
      from Cons.IH [OF len] l r show ?thesis
        unfolding 0 pat_def by simp
    next
      case False
      have nt: "take 4 (c # cs) \<noteq> pat"
      proof
        assume a: "take 4 (c # cs) = pat"
        then have "length (take 4 (c # cs)) = 4" using pat by simp
        then have "3 \<le> length cs" by (simp add: min_def split: if_splits)
        then have "take 4 (c # cs @ pat @ v) = take 4 (c # cs)" by simp
        with a False show False by simp
      qed
      have l: "replaceAux pat [] 0 (c # cs @ pat @ v) = c # replaceAux pat [] 0 (cs @ pat @ v)"
        using replaceAux_nomatch [of pat c "cs @ pat @ v" "[]"] False pat by simp
      have r: "replaceAux pat [] 0 (c # cs) = c # replaceAux pat [] 0 cs"
        using replaceAux_nomatch [of pat c cs "[]"] nt pat by simp
      from Cons.IH [of 0] l r show ?thesis
        unfolding 0 pat_def by simp
    qed
  qed
qed

lemma replaceAux_js_absent:
  "\<not> sublist ''js: '' s \<Longrightarrow> replaceAux ''js: '' [] 0 s = s"
proof (induction s)
  case Nil
  then show ?case by simp
next
  case (Cons c cs)
  define pat where "pat = ''js: ''"
  have pat: "pat \<noteq> []" "length pat = 4"
    by (simp_all add: pat_def)
  from Cons.prems have np: "\<not> prefix pat (c # cs)" and ns: "\<not> sublist ''js: '' cs"
    unfolding pat_def by (simp_all add: sublist_Cons_right)
  have "take 4 (c # cs) \<noteq> pat"
  proof
    assume "take 4 (c # cs) = pat"
    then have "prefix pat (c # cs)" by (metis take_is_prefix)
    with np show False by simp
  qed
  then have "replaceAux pat [] 0 (c # cs) = c # replaceAux pat [] 0 cs"
    using replaceAux_nomatch [of pat c cs "[]"] pat by simp
  with Cons.IH [OF ns] show ?case unfolding pat_def by simp
qed

lemma ReplaceAll_js_append:
  "ReplaceAll (u @ ''js: '' @ v) ''js: '' [] = ReplaceAll u ''js: '' [] @ ReplaceAll v ''js: '' []"
  unfolding ReplaceAll_def by (rule replaceAux_js_append) simp

lemma ReplaceAll_js_absent:
  "\<not> sublist ''js: '' s \<Longrightarrow> ReplaceAll s ''js: '' [] = s"
  unfolding ReplaceAll_def by (rule replaceAux_js_absent)



lemma ReplaceAll_js_prefixed:
  assumes "\<not> sublist ''js: '' t"
  shows "ReplaceAll (''js: '' @ t) ''js: '' [] = t"
proof -
  have "ReplaceAll ([] @ ''js: '' @ t) ''js: '' [] =
        ReplaceAll [] ''js: '' [] @ ReplaceAll t ''js: '' []"
    by (rule ReplaceAll_js_append)
  moreover have "ReplaceAll [] ''js: '' [] = []" by (simp add: ReplaceAll_def)
  ultimately show ?thesis using ReplaceAll_js_absent [OF assms] by simp
qed

lemma ReplaceAll_js_prefixed_cons:
  assumes "\<not> sublist ''js: '' t"
  shows "ReplaceAll (CHR ''j'' # CHR ''s'' # CHR '':'' # CHR '' '' # t) ''js: '' [] = t"
  using ReplaceAll_js_prefixed [OF assms] by simp

subsection \<open>Running the effects\<close>

lemmas io_defs = andThen_def ret_def goPanic_def effect_def Printf_def deferring_def timeNow_def

lemmas bridge_defs = loadExecuteAndGetOutput_def runStopAndCollect_def closeAndRemove_def
  loadScript_def runScript_def stopScript_def getJournal_def callDbusSend_def
  callProgramAndReadOutput_def

lemma printLines_run:
  "printLines ls w = (Returned (), w @ map (\<lambda>l. EvPrintf ''%s\<newline>'' [PStr l]) ls)"
  by (induction ls arbitrary: w) (simp_all add: io_defs)

lemma call_ok:
  assumes "callProgramAndReadOutput E c a w = (Returned (out, None), w')"
  shows "w' = w @ [EvCommand c a, EvWait c a]"
  using assms
  by (auto simp: callProgramAndReadOutput_def io_defs Let_def printLines_run
      split: option.splits)

lemma call_first_event:
  "\<exists>res evs. callProgramAndReadOutput E c a w = (res, w @ EvCommand c a # evs)"
  by (auto simp: callProgramAndReadOutput_def io_defs Let_def printLines_run
      split: option.splits)

lemma getJournal_first_event:
  "\<exists>res evs. getJournal E t1 t2 w =
     (res, w @ EvCommand journalCtl (getJournal_args E t1 t2) # evs)"
proof -
  obtain res evs where
    c: "callProgramAndReadOutput E journalCtl (getJournal_args E t1 t2) w =
        (res, w @ EvCommand journalCtl (getJournal_args E t1 t2) # evs)"
    using call_first_event by blast
  show ?thesis
    by (cases res) (auto simp: getJournal_def andThen_def ret_def c split: option.splits)
qed

lemma runScript_ok:
  assumes "runScript E n w = (Returned None, w')"
  shows "w' = w @ [EvCommand dbusSend (runScript_args n), EvWait dbusSend (runScript_args n)]"
proof -
  from assms obtain out where
    "callProgramAndReadOutput E dbusSend (runScript_args n) w = (Returned (out, None), w')"
    by (auto simp: runScript_def callDbusSend_def andThen_def ret_def
        split: prod.splits outcome.splits)
  then show ?thesis by (rule call_ok)
qed

lemma stopScript_ok:
  assumes "stopScript E n w = (Returned None, w')"
  shows "w' = w @ [EvCommand dbusSend (stopScript_args n), EvWait dbusSend (stopScript_args n)]"
proof -
  from assms obtain out where
    "callProgramAndReadOutput E dbusSend (stopScript_args n) w = (Returned (out, None), w')"
    by (auto simp: stopScript_def callDbusSend_def andThen_def ret_def
        split: prod.splits outcome.splits)
  then show ?thesis by (rule call_ok)
qed

lemma last_script_args:
  "last (runScript_args n) = ''org.kde.kwin.Script.run''"
  "last (stopScript_args n) = ''org.kde.kwin.Script.stop''"
  by (simp_all add: runScript_args_def stopScript_args_def)

lemma script_args_differ:
  "runScript_args n \<noteq> stopScript_args m"
  "stopScript_args m \<noteq> [''--print-reply'', ''--dest=org.kde.KWin'', ''/Scripting'',
      ''org.kde.kwin.Scripting.loadScript'', a]"
  by (simp_all add: runScript_args_def stopScript_args_def)

lemma scripts_differ:
  "GetScreens_script \<noteq> GetWindows_script"
  "GetDesktops_script \<noteq> GetWindows_script"
  by (simp_all add: GetScreens_script_def GetDesktops_script_def GetWindows_script_def)

text \<open>What a computation appends to the trace.\<close>

lemma onlyEvents_ret: "onlyEvents P (ret x)"
  by (simp add: onlyEvents_def ret_def)

lemma onlyEvents_pure: "onlyEvents P (\<lambda>w. (r, w))"
  by (simp add: onlyEvents_def)

lemma onlyEvents_goPanic: "onlyEvents P (goPanic p)"
  by (simp add: onlyEvents_def goPanic_def)

lemma onlyEvents_effect: "(\<And>n. P (fst (f n))) \<Longrightarrow> onlyEvents P (effect f)"
  by (simp add: onlyEvents_def effect_def)

lemma onlyEvents_andThen:
  assumes "onlyEvents P m" and "\<And>x. onlyEvents P (f x)"
  shows "onlyEvents P (andThen m f)"
  unfolding onlyEvents_def
proof
  fix w
  from assms(1) obtain evs where m: "snd (m w) = w @ evs" "list_all P evs"
    unfolding onlyEvents_def by blast
  show "\<exists>evs. snd (andThen m f w) = w @ evs \<and> list_all P evs"
  proof (cases "m w")
    case (Pair r w')
    with m have w': "w' = w @ evs" by simp
    show ?thesis
    proof (cases r)
      case (Returned x)
      from assms(2) [of x] obtain evs' where
        "snd (f x w') = w' @ evs'" "list_all P evs'"
        unfolding onlyEvents_def by blast
      with m w' Pair Returned show ?thesis
        by (auto simp: andThen_def intro!: exI [of _ "evs @ evs'"])
    next
      case (Panicked p)
      with m w' Pair show ?thesis by (auto simp: andThen_def)
    qed
  qed
qed

lemma onlyEvents_deferring:
  assumes "onlyEvents P c" and "onlyEvents P b"
  shows "onlyEvents P (deferring c b)"
  unfolding onlyEvents_def
proof
  fix w
  from assms(2) obtain evs where b: "snd (b w) = w @ evs" "list_all P evs"
    unfolding onlyEvents_def by blast
  from assms(1) obtain evs' where c: "snd (c (w @ evs)) = (w @ evs) @ evs'" "list_all P evs'"
    unfolding onlyEvents_def by blast
  from b c show "\<exists>evs. snd (deferring c b w) = w @ evs \<and> list_all P evs"
    by (cases "b w"; cases "c (w @ evs)"; cases "fst (c (w @ evs))")
       (auto simp: deferring_def intro!: exI [of _ "evs @ evs'"])
qed

lemma onlyEvents_printLines:
  "(\<And>f a. P (EvPrintf f a)) \<Longrightarrow> onlyEvents P (printLines ls)"
  by (induction ls)
     (auto intro!: onlyEvents_ret onlyEvents_andThen onlyEvents_effect simp: Printf_def)

lemma onlyEvents_call:
  "onlyEvents (otherScript s) (callProgramAndReadOutput E c a)"
  unfolding callProgramAndReadOutput_def Let_def
  by (auto intro!: onlyEvents_ret onlyEvents_andThen onlyEvents_effect onlyEvents_goPanic
        onlyEvents_printLines
      simp: Printf_def otherScript_def split: option.splits)

lemma onlyEvents_bridge:
  assumes "script \<noteq> s"
  shows "onlyEvents (otherScript s) (loadExecuteAndGetOutput E script)"
  unfolding loadExecuteAndGetOutput_def runStopAndCollect_def closeAndRemove_def
    loadScript_def runScript_def stopScript_def getJournal_def callDbusSend_def timeNow_def
  using assms
  by (auto intro!: onlyEvents_ret onlyEvents_andThen onlyEvents_effect onlyEvents_goPanic
        onlyEvents_deferring onlyEvents_call
      simp: Printf_def otherScript_def split: option.splits prod.splits)

lemma onlyEvents_GetScreens:
  "onlyEvents (otherScript GetWindows_script) (GetScreens E)"
  unfolding GetScreens_def
  by (auto intro!: onlyEvents_ret onlyEvents_andThen onlyEvents_effect onlyEvents_bridge
      simp: scripts_differ Printf_def otherScript_def split: option.splits prod.splits)

lemma onlyEvents_GetDesktops:
  "onlyEvents (otherScript GetWindows_script) (GetDesktops E)"
  unfolding GetDesktops_def
  by (auto intro!: onlyEvents_ret onlyEvents_andThen onlyEvents_effect onlyEvents_bridge
        onlyEvents_pure
      simp: scripts_differ Printf_def otherScript_def split: option.splits prod.splits)

lemma onlyEventsD:
  assumes "onlyEvents P m" and "m w = (r, w')"
  shows "\<exists>evs. w' = w @ evs \<and> list_all P evs"
  using assms unfolding onlyEvents_def by (metis snd_conv)

subsection \<open>The sample environments at work\<close>

lemma loadReply_ok: "loadScript_reply loadReply = (7, None)"
  by code_simp

text \<open>The bridge when every step succeeds: fifteen events, the two clock readings sixth and eleventh.\<close>

lemma sample_bridge_ok:
  "loadExecuteAndGetOutput
     (scriptedEnv (procOK loadReply) (procOK r) (procOK t) (\<lambda>n. procOK (out n)) c) script w =
   (Returned (out (length w + 11), None),
    w @ [EvCreateTemp ''/tmp'' ''kwin_script_*.js'',
         EvWriteString ''/tmp/kwin_script_42.js'' script,
         EvChmod ''/tmp/kwin_script_42.js'' 511,
         EvCommand dbusSend [''--print-reply'', ''--dest=org.kde.KWin'', ''/Scripting'',
           ''org.kde.kwin.Scripting.loadScript'', ''string:/tmp/kwin_script_42.js''],
         EvWait dbusSend [''--print-reply'', ''--dest=org.kde.KWin'', ''/Scripting'',
           ''org.kde.kwin.Scripting.loadScript'', ''string:/tmp/kwin_script_42.js''],
         EvNow (length w + 5),
         EvCommand dbusSend (runScript_args 7),
         EvWait dbusSend (runScript_args 7),
         EvCommand dbusSend (stopScript_args 7),
         EvWait dbusSend (stopScript_args 7),
         EvNow (length w + 10),
         EvCommand journalCtl
           (getJournal_args
              (scriptedEnv (procOK loadReply) (procOK r) (procOK t) (\<lambda>n. procOK (out n)) c)
              (length w + 5) (length w + 10)),
         EvWait journalCtl
           (getJournal_args
              (scriptedEnv (procOK loadReply) (procOK r) (procOK t) (\<lambda>n. procOK (out n)) c)
              (length w + 5) (length w + 10)),
         EvClose ''/tmp/kwin_script_42.js'',
         EvRemove ''/tmp/kwin_script_42.js''])"
proof -
  define E where "E = scriptedEnv (procOK loadReply) (procOK r) (procOK t) (\<lambda>n. procOK (out n)) c"
  have sel: "tempDir E = ''/tmp''" "createTemp E = (\<lambda>n dir pattern. (''/tmp/kwin_script_42.js'', None))"
    "writeString E = (\<lambda>n file text. None)" "chmod E = (\<lambda>n file mode. None)"
    "closeFile E = (\<lambda>n file. None)" "removeFile E = (\<lambda>n file. None)"
    "clock E = (\<lambda>n. n)"
    "runProgram E = (\<lambda>n command args.
        if command = journalCtl then procOK (out n)
        else if last args = ''org.kde.kwin.Script.run'' then procOK r
        else if last args = ''org.kde.kwin.Script.stop'' then procOK t
        else procOK loadReply)"
    by (simp_all add: E_def scriptedEnv_def)
  have neq: "dbusSend \<noteq> journalCtl" by (simp add: dbusSend_def journalCtl_def)
  show ?thesis
    unfolding E_def [symmetric]
    by (simp add: bridge_defs io_defs sel neq procOK_def loadReply_ok last_script_args
        Let_def eval_nat_numeral)
qed

lemma sample_lines_clean:
  "\<not> sublist ''js: '' sampleScreenJSON"
  "\<not> sublist ''js: '' (sampleDesktopJSON idA)"
  "\<not> sublist ''js: '' (sampleDesktopJSON ''not-a-uuid'')"
  "\<not> sublist ''js: '' (sampleWindowJSON idW)"
  "\<not> sublist ''js: '' (sampleWindowJSON ''not-a-uuid'')"
  by code_simp+

lemma sample_ids:
  "sampleDesktopJSON ''not-a-uuid'' \<noteq> sampleDesktopJSON idA"
  "sampleWindowJSON ''not-a-uuid'' \<noteq> sampleWindowJSON idW"
  "sampleUuidParse ''not-a-uuid'' = Inl (OSError ''invalid UUID format'')"
  "sampleUuidParse idW = Inr uuidW"
  by code_simp+

lemma sample_decoded:
  "unmarshalWindow (scriptedEnv pl pr ps pj c)
     (ReplaceAll (''js: '' @ sampleWindowJSON idW) ''js: '' []) = Inr (sampleWindow idW)"
  "unmarshalWindow (scriptedEnv pl pr ps pj c)
     (ReplaceAll (''js: '' @ sampleWindowJSON ''not-a-uuid'') ''js: '' []) =
   Inr (sampleWindow ''not-a-uuid'')"
  "unmarshalDesktop (scriptedEnv pl pr ps pj c)
     (ReplaceAll (''js: '' @ sampleDesktopJSON ''not-a-uuid'') ''js: '' []) =
   Inr (sampleDesktop ''not-a-uuid'')"
  "unmarshalScreen (scriptedEnv pl pr ps pj c)
     (ReplaceAll (''js: '' @ sampleScreenJSON) ''js: '' []) = Inr sampleScreen"
  by (simp_all add: ReplaceAll_js_prefixed_cons sample_lines_clean scriptedEnv_def
      sampleUnmarshalWindow_def sampleUnmarshalDesktop_def sampleUnmarshalScreen_def sample_ids)

lemma sample_cmdline:
  "Fields (TrimSpace (ReplaceAll [] [CHR 0x00] [CHR 0x20])) = []"
  "Fields (TrimSpace (ReplaceAll [CHR 0x00, CHR 0x00] [CHR 0x00] [CHR 0x20])) = []"
  "Fields (TrimSpace (ReplaceAll (''/usr/bin/konsole'' @ [CHR 0x00] @ ''--profile'' @ [CHR 0x00])
     [CHR 0x00] [CHR 0x20])) = [''/usr/bin/konsole'', ''--profile'']"
  "TrimSpace (last (Split ''/usr/bin/konsole'' ''/'')) = ''konsole''"
  "procCmdlinePath 4242 = ''/proc/4242/cmdline''"
  by code_simp+

subsection \<open>The registration reply\<close>

text \<open>
  Claim C6. Once \<^verbatim>\<open>dbus-send\<close> has returned a reply, \<^verbatim>\<open>loadScript\<close> returns -1 and
  an error when the reply is not exactly two lines, when its second line does not split
  into exactly two white-space separated fields, and when the second field is not
  accepted by \<^verbatim>\<open>strconv.Atoi\<close>; otherwise it returns the integer read from that field
  and no error.
\<close>

theorem loadScript_reply_protocol:
  assumes "callDbusSend E [''--print-reply'', ''--dest=org.kde.KWin'', ''/Scripting'',
             ''org.kde.kwin.Scripting.loadScript'', ''string:'' @ scriptPath] w
           = (Returned (output, None), w')"
  shows "(length output \<noteq> 2 \<longrightarrow>
            loadScript E scriptPath w = (Returned (- 1, Some (ScriptLoadFailed output)), w'))
       \<and> (length output = 2 \<and> length (Fields (output ! 1)) \<noteq> 2 \<longrightarrow>
            loadScript E scriptPath w = (Returned (- 1, Some (ScriptLoadFailed output)), w'))
       \<and> (length output = 2 \<and> length (Fields (output ! 1)) = 2 \<longrightarrow>
            (\<forall>v e. Atoi (Fields (output ! 1) ! 1) = (v, Some e) \<longrightarrow>
                   loadScript E scriptPath w = (Returned (- 1, Some e), w'))
          \<and> (\<forall>v. Atoi (Fields (output ! 1) ! 1) = (v, None) \<longrightarrow>
                   loadScript E scriptPath w = (Returned (v, None), w')))"
  using assms by (simp add: loadScript_def loadScript_reply_def andThen_def ret_def Let_def)

text \<open>
  Four replies: \<^verbatim>\<open>int32 7\<close> on the second line registers the script as number 7; a
  reply of one line, a second line of three fields and a second field that is not a
  number each give -1 and an error.
\<close>

theorem loadScript_reply_protocol_witness:
  "fst (loadScript quietEnv ''/tmp/kwin_script_42.js'' []) = Returned (7, None)
   \<and> fst (loadScript
        (scriptedEnv (procOK [''method return time=1700000000.000000 sender=:1.23'']) (procOK [])
           (procOK []) (\<lambda>n. procOK []) ([], None))
        ''/tmp/kwin_script_42.js'' [])
     = Returned (- 1, Some (ScriptLoadFailed
         [''method return time=1700000000.000000 sender=:1.23'']))
   \<and> fst (loadScript
        (scriptedEnv (procOK [''method return time=1700000000.000000 sender=:1.23'', ''   int32 7 8''])
           (procOK []) (procOK []) (\<lambda>n. procOK []) ([], None))
        ''/tmp/kwin_script_42.js'' [])
     = Returned (- 1, Some (ScriptLoadFailed
         [''method return time=1700000000.000000 sender=:1.23'', ''   int32 7 8'']))
   \<and> fst (loadScript
        (scriptedEnv (procOK [''method return time=1700000000.000000 sender=:1.23'', ''   string seven''])
           (procOK []) (procOK []) (\<lambda>n. procOK []) ([], None))
        ''/tmp/kwin_script_42.js'' [])
     = Returned (- 1, Some (NumError ''Atoi'' ''seven'' ErrSyntax))"
proof -
  let ?args = "[''--print-reply'', ''--dest=org.kde.KWin'', ''/Scripting'',
      ''org.kde.kwin.Scripting.loadScript'', ''string:'' @ ''/tmp/kwin_script_42.js'']"
  let ?h = "''method return time=1700000000.000000 sender=:1.23''"
  have call: "callDbusSend
        (scriptedEnv (procOK rp) (procOK []) (procOK []) (\<lambda>n. procOK []) ([], None)) ?args [] =
      (Returned (rp, None), [EvCommand dbusSend ?args, EvWait dbusSend ?args])" for rp
    by (simp add: callDbusSend_def callProgramAndReadOutput_def io_defs
        scriptedEnv_def procOK_def journalCtl_def dbusSend_def)
  have good: "length loadReply = 2" "length (Fields (loadReply ! 1)) = 2"
    "Atoi (Fields (loadReply ! 1) ! 1) = (7, None)"
    by code_simp+
  have one: "length [?h] \<noteq> 2" by simp
  have three: "length [?h, ''   int32 7 8''] = 2"
    "length (Fields ([?h, ''   int32 7 8''] ! 1)) \<noteq> 2"
    by code_simp+
  have word: "length [?h, ''   string seven''] = 2"
    "length (Fields ([?h, ''   string seven''] ! 1)) = 2"
    "Atoi (Fields ([?h, ''   string seven''] ! 1) ! 1) = (0, Some (NumError ''Atoi'' ''seven'' ErrSyntax))"
    by code_simp+
  from loadScript_reply_protocol [OF call [of loadReply]] good
  have 1: "fst (loadScript quietEnv ''/tmp/kwin_script_42.js'' []) = Returned (7, None)"
    by (simp add: quietEnv_def)
  from loadScript_reply_protocol [OF call [of "[?h]"]] one
  have 2: "fst (loadScript
        (scriptedEnv (procOK [?h]) (procOK []) (procOK []) (\<lambda>n. procOK []) ([], None))
        ''/tmp/kwin_script_42.js'' []) = Returned (- 1, Some (ScriptLoadFailed [?h]))"
    by simp
  from loadScript_reply_protocol [OF call [of "[?h, ''   int32 7 8'']"]] three
  have 3: "fst (loadScript
        (scriptedEnv (procOK [?h, ''   int32 7 8'']) (procOK []) (procOK []) (\<lambda>n. procOK [])
           ([], None))
        ''/tmp/kwin_script_42.js'' []) =
      Returned (- 1, Some (ScriptLoadFailed [?h, ''   int32 7 8'']))"
    by simp
  from loadScript_reply_protocol [OF call [of "[?h, ''   string seven'']"]] word
  have 4: "fst (loadScript
        (scriptedEnv (procOK [?h, ''   string seven'']) (procOK []) (procOK []) (\<lambda>n. procOK [])
           ([], None))
        ''/tmp/kwin_script_42.js'' []) =
      Returned (- 1, Some (NumError ''Atoi'' ''seven'' ErrSyntax))"
    by simp
  from 1 2 3 4 show ?thesis by simp
qed

subsection \<open>Stopping the script\<close>

text \<open>
  Whenever the run call returns an error, the function prints it and returns it; nothing
  follows but the deferred close and remove.
\<close>

lemma runStopAndCollect_run_error:
  assumes "runScript E scriptNo (w @ [EvNow (clock E (length w))]) = (Returned (Some e), w1)"
  shows "runStopAndCollect E scriptNo w =
           (Returned ([], Some e),
            w1 @ [EvPrintf ''Error running script: %v\<newline>'' [PErr e]])"
  using assms by (simp add: runStopAndCollect_def io_defs)

text \<open>
  Claim C1, on the code. The script is registered as number 7 and \<^verbatim>\<open>dbus-send\<close> exits
  abnormally on the run call: \<^verbatim>\<open>loadExecuteAndGetOutput\<close> prints the error, closes and
  removes the file and returns the error. No stop call is among its effects: the
  registration is left in the compositor.
\<close>

theorem run_failure_skips_stop:
  "loadExecuteAndGetOutput runFailsEnv GetScreens_script [] =
   (Returned ([], Some (OSError ''exit status 1'')),
    [EvCreateTemp ''/tmp'' ''kwin_script_*.js'',
     EvWriteString ''/tmp/kwin_script_42.js'' GetScreens_script,
     EvChmod ''/tmp/kwin_script_42.js'' 511,
     EvCommand dbusSend [''--print-reply'', ''--dest=org.kde.KWin'', ''/Scripting'',
       ''org.kde.kwin.Scripting.loadScript'', ''string:/tmp/kwin_script_42.js''],
     EvWait dbusSend [''--print-reply'', ''--dest=org.kde.KWin'', ''/Scripting'',
       ''org.kde.kwin.Scripting.loadScript'', ''string:/tmp/kwin_script_42.js''],
     EvNow 5,
     EvCommand dbusSend (runScript_args 7),
     EvWait dbusSend (runScript_args 7),
     EvPrintf ''Command finished with error: %v\<newline>'' [PErr (OSError ''exit status 1'')],
     EvPrintf ''%s\<newline>''
       [PStr ''Error org.freedesktop.DBus.Error.NoReply: Message recipient disconnected''],
     EvPrintf ''Error running script: %v\<newline>'' [PErr (OSError ''exit status 1'')],
     EvClose ''/tmp/kwin_script_42.js'',
     EvRemove ''/tmp/kwin_script_42.js''])
   \<and> EvCommand dbusSend (stopScript_args 7)
       \<notin> set (snd (loadExecuteAndGetOutput runFailsEnv GetScreens_script []))"
proof -
  have sel: "tempDir runFailsEnv = ''/tmp''"
    "createTemp runFailsEnv = (\<lambda>n dir pattern. (''/tmp/kwin_script_42.js'', None))"
    "writeString runFailsEnv = (\<lambda>n file text. None)"
    "chmod runFailsEnv = (\<lambda>n file mode. None)"
    "closeFile runFailsEnv = (\<lambda>n file. None)"
    "removeFile runFailsEnv = (\<lambda>n file. None)"
    "clock runFailsEnv = (\<lambda>n. n)"
    "runProgram runFailsEnv = (\<lambda>n command args.
        if command = journalCtl then procOK []
        else if last args = ''org.kde.kwin.Script.run''
        then procExits [] [''Error org.freedesktop.DBus.Error.NoReply: Message recipient disconnected'']
           (OSError ''exit status 1'')
        else if last args = ''org.kde.kwin.Script.stop'' then procOK []
        else procOK loadReply)"
    by (simp_all add: runFailsEnv_def scriptedEnv_def)
  have neq: "dbusSend \<noteq> journalCtl" by (simp add: dbusSend_def journalCtl_def)
  have run: "loadExecuteAndGetOutput runFailsEnv GetScreens_script [] =
   (Returned ([], Some (OSError ''exit status 1'')),
    [EvCreateTemp ''/tmp'' ''kwin_script_*.js'',
     EvWriteString ''/tmp/kwin_script_42.js'' GetScreens_script,
     EvChmod ''/tmp/kwin_script_42.js'' 511,
     EvCommand dbusSend [''--print-reply'', ''--dest=org.kde.KWin'', ''/Scripting'',
       ''org.kde.kwin.Scripting.loadScript'', ''string:/tmp/kwin_script_42.js''],
     EvWait dbusSend [''--print-reply'', ''--dest=org.kde.KWin'', ''/Scripting'',
       ''org.kde.kwin.Scripting.loadScript'', ''string:/tmp/kwin_script_42.js''],
     EvNow 5,
     EvCommand dbusSend (runScript_args 7),
     EvWait dbusSend (runScript_args 7),
     EvPrintf ''Command finished with error: %v\<newline>'' [PErr (OSError ''exit status 1'')],
     EvPrintf ''%s\<newline>''
       [PStr ''Error org.freedesktop.DBus.Error.NoReply: Message recipient disconnected''],
     EvPrintf ''Error running script: %v\<newline>'' [PErr (OSError ''exit status 1'')],
     EvClose ''/tmp/kwin_script_42.js'',
     EvRemove ''/tmp/kwin_script_42.js''])"
    by (simp add: bridge_defs io_defs sel neq procOK_def procExits_def loadReply_ok
        last_script_args Let_def eval_nat_numeral)
  show ?thesis
    unfolding run
    by (simp add: script_args_differ script_args_differ(1) [symmetric])
qed

subsection \<open>The journal window\<close>

text \<open>
  Claim C2, amended. When the run call and the stop call both return without error, the
  effects of lines 251 to 265 are, in this order: the reading of the start time, the
  invocation and the completion of run, the invocation and the completion of stop, the
  reading of the end time, and the journal query for exactly these two readings. So the
  start time is read before run is invoked and the end time after stop has completed;
  and with a clock that never goes backwards, start \<open>\<le>\<close> end, start is no later than the
  time of the run invocation, and end is no earlier than the time stop completed.
\<close>

theorem journal_window_ordering:
  assumes "mono (clock E)"
    and "runScript E scriptNo (w @ [EvNow (clock E (length w))]) = (Returned None, w2)"
    and "stopScript E scriptNo w2 = (Returned None, w3)"
  shows "(\<exists>res evs. runStopAndCollect E scriptNo w =
           (res, w @ [EvNow (clock E (length w)),
                      EvCommand dbusSend (runScript_args scriptNo),
                      EvWait dbusSend (runScript_args scriptNo),
                      EvCommand dbusSend (stopScript_args scriptNo),
                      EvWait dbusSend (stopScript_args scriptNo),
                      EvNow (clock E (length w + 5)),
                      EvCommand journalCtl
                        (getJournal_args E (clock E (length w)) (clock E (length w + 5)))]
                   @ evs))
       \<and> clock E (length w) \<le> clock E (length w + 5)
       \<and> clock E (length w) \<le> clock E (length w + 1)
       \<and> clock E (length w + 4) \<le> clock E (length w + 5)"
proof -
  let ?s = "clock E (length w)" and ?e = "clock E (length w + 5)"
  from runScript_ok [OF assms(2)] have w2: "w2 = w @ [EvNow ?s,
      EvCommand dbusSend (runScript_args scriptNo), EvWait dbusSend (runScript_args scriptNo)]"
    by simp
  from stopScript_ok [OF assms(3)] have w3: "w3 = w @ [EvNow ?s,
      EvCommand dbusSend (runScript_args scriptNo), EvWait dbusSend (runScript_args scriptNo),
      EvCommand dbusSend (stopScript_args scriptNo), EvWait dbusSend (stopScript_args scriptNo)]"
    by (simp add: w2)
  have l3: "length w3 = length w + 5" by (simp add: w3)
  obtain res evs where j: "getJournal E ?s ?e (w3 @ [EvNow ?e]) =
      (res, (w3 @ [EvNow ?e]) @ EvCommand journalCtl (getJournal_args E ?s ?e) # evs)"
    using getJournal_first_event by blast
  have "\<exists>res' evs'. runStopAndCollect E scriptNo w =
      (res', (w3 @ [EvNow ?e]) @ EvCommand journalCtl (getJournal_args E ?s ?e) # evs')"
    using assms(2,3)
    by (cases res)
       (auto simp: runStopAndCollect_def io_defs j l3 split: option.splits prod.splits)
  then have tr: "\<exists>res evs. runStopAndCollect E scriptNo w =
           (res, w @ [EvNow ?s,
                      EvCommand dbusSend (runScript_args scriptNo),
                      EvWait dbusSend (runScript_args scriptNo),
                      EvCommand dbusSend (stopScript_args scriptNo),
                      EvWait dbusSend (stopScript_args scriptNo),
                      EvNow ?e,
                      EvCommand journalCtl (getJournal_args E ?s ?e)] @ evs)"
    by (simp add: w3)
  from assms(1) have "?s \<le> ?e" "?s \<le> clock E (length w + 1)"
    "clock E (length w + 4) \<le> ?e"
    by (simp_all add: mono_def)
  with tr show ?thesis by blast
qed

text \<open>In the sample environment, from the empty trace: the window is from 0 to 5.\<close>

theorem journal_window_ordering_witness:
  "mono (clock quietEnv)
   \<and> runScript quietEnv 7 [EvNow 0]
      = (Returned None,
         [EvNow 0, EvCommand dbusSend (runScript_args 7), EvWait dbusSend (runScript_args 7)])
   \<and> (\<exists>res evs. runStopAndCollect quietEnv 7 []
        = (res, [EvNow 0,
                 EvCommand dbusSend (runScript_args 7),
                 EvWait dbusSend (runScript_args 7),
                 EvCommand dbusSend (stopScript_args 7),
                 EvWait dbusSend (stopScript_args 7),
                 EvNow 5,
                 EvCommand journalCtl (getJournal_args quietEnv 0 5)] @ evs))"
proof -
  have sel: "clock quietEnv = (\<lambda>n. n)"
    "runProgram quietEnv = (\<lambda>n command args.
        if command = journalCtl then procOK []
        else if last args = ''org.kde.kwin.Script.run'' then procOK []
        else if last args = ''org.kde.kwin.Script.stop'' then procOK []
        else procOK loadReply)"
    by (simp_all add: quietEnv_def scriptedEnv_def)
  have neq: "dbusSend \<noteq> journalCtl" by (simp add: dbusSend_def journalCtl_def)
  have m: "mono (clock quietEnv)" by (simp add: sel mono_def)
  have r: "runScript quietEnv 7 ([] @ [EvNow (clock quietEnv (length ([] :: event list)))]) =
      (Returned None,
       [EvNow 0, EvCommand dbusSend (runScript_args 7), EvWait dbusSend (runScript_args 7)])"
    by (simp add: runScript_def callDbusSend_def callProgramAndReadOutput_def io_defs sel neq
        procOK_def last_script_args)
  have s: "stopScript quietEnv 7
       [EvNow 0, EvCommand dbusSend (runScript_args 7), EvWait dbusSend (runScript_args 7)] =
      (Returned None,
       [EvNow 0, EvCommand dbusSend (runScript_args 7), EvWait dbusSend (runScript_args 7),
        EvCommand dbusSend (stopScript_args 7), EvWait dbusSend (stopScript_args 7)])"
    by (simp add: stopScript_def callDbusSend_def callProgramAndReadOutput_def io_defs sel neq
        procOK_def last_script_args)
  from journal_window_ordering [OF m r s] m r show ?thesis
    by (simp add: sel)
qed

text \<open>
  Claim C2 as stated, refuted. In the sample environment the clock shows the instant.
  The start time 5 is read at instant 5 and run is invoked at instant 6, at time 6: the
  start is recorded earlier than the run invocation, not "no earlier".
\<close>

theorem start_recorded_before_run_invocation:
  "snd (loadExecuteAndGetOutput quietEnv GetScreens_script []) =
    [EvCreateTemp ''/tmp'' ''kwin_script_*.js'',
     EvWriteString ''/tmp/kwin_script_42.js'' GetScreens_script,
     EvChmod ''/tmp/kwin_script_42.js'' 511,
     EvCommand dbusSend [''--print-reply'', ''--dest=org.kde.KWin'', ''/Scripting'',
       ''org.kde.kwin.Scripting.loadScript'', ''string:/tmp/kwin_script_42.js''],
     EvWait dbusSend [''--print-reply'', ''--dest=org.kde.KWin'', ''/Scripting'',
       ''org.kde.kwin.Scripting.loadScript'', ''string:/tmp/kwin_script_42.js''],
     EvNow 5,
     EvCommand dbusSend (runScript_args 7),
     EvWait dbusSend (runScript_args 7),
     EvCommand dbusSend (stopScript_args 7),
     EvWait dbusSend (stopScript_args 7),
     EvNow 10,
     EvCommand journalCtl (getJournal_args quietEnv 5 10),
     EvWait journalCtl (getJournal_args quietEnv 5 10),
     EvClose ''/tmp/kwin_script_42.js'',
     EvRemove ''/tmp/kwin_script_42.js'']
   \<and> clock quietEnv 5 = 5
   \<and> clock quietEnv 6 = 6
   \<and> \<not> clock quietEnv 6 \<le> clock quietEnv 5"
proof -
  have c: "clock quietEnv = (\<lambda>n. n)"
    by (simp add: quietEnv_def scriptedEnv_def)
  show ?thesis
    using sample_bridge_ok [of "[]" "[]" "\<lambda>n. []" "([], None)" GetScreens_script "[]",
        folded quietEnv_def]
    by (simp add: c)
qed

text \<open>
  The hypothesis on the clock cannot be dropped: with a clock that runs backwards the
  journal is queried for a window from 100 to 95.
\<close>

theorem backward_clock_window:
  "snd (runStopAndCollect
     ((scriptedEnv (procOK loadReply) (procOK []) (procOK []) (\<lambda>n. procOK []) ([], None))
        \<lparr>clock := (\<lambda>n. 100 - n)\<rparr>) 7 []) =
    [EvNow 100,
     EvCommand dbusSend (runScript_args 7),
     EvWait dbusSend (runScript_args 7),
     EvCommand dbusSend (stopScript_args 7),
     EvWait dbusSend (stopScript_args 7),
     EvNow 95,
     EvCommand journalCtl
       (getJournal_args
          ((scriptedEnv (procOK loadReply) (procOK []) (procOK []) (\<lambda>n. procOK []) ([], None))
             \<lparr>clock := (\<lambda>n. 100 - n)\<rparr>) 100 95),
     EvWait journalCtl
       (getJournal_args
          ((scriptedEnv (procOK loadReply) (procOK []) (procOK []) (\<lambda>n. procOK []) ([], None))
             \<lparr>clock := (\<lambda>n. 100 - n)\<rparr>) 100 95)]"
proof -
  define E where "E = (scriptedEnv (procOK loadReply) (procOK []) (procOK []) (\<lambda>n. procOK [])
     ([], None))\<lparr>clock := (\<lambda>n. 100 - n)\<rparr>"
  have sel: "clock E = (\<lambda>n. 100 - n)"
    "runProgram E = (\<lambda>n command args.
        if command = journalCtl then procOK []
        else if last args = ''org.kde.kwin.Script.run'' then procOK []
        else if last args = ''org.kde.kwin.Script.stop'' then procOK []
        else procOK loadReply)"
    by (simp_all add: E_def scriptedEnv_def)
  have neq: "dbusSend \<noteq> journalCtl" by (simp add: dbusSend_def journalCtl_def)
  show ?thesis
    unfolding E_def [symmetric]
    by (simp add: bridge_defs io_defs sel neq procOK_def last_script_args Let_def
        eval_nat_numeral)
qed

subsection \<open>Malformed identifiers\<close>

lemma GetDesktops_malformed_id:
  assumes "loadExecuteAndGetOutput E GetDesktops_script w = (Returned (s # rest, None), w1)"
    and "unmarshalDesktop E (ReplaceAll s ''js: '' []) = Inr d"
    and "uuidParse E (Desktop.Id d) = Inl e"
  shows "GetDesktops E w = (Panicked (MustParseFailed (Desktop.Id d) e), w1)"
  using assms
  by (simp add: GetDesktops_def GetDesktops_body_def MustParse_def andThen_def)

lemma GetWindows_malformed_id:
  assumes "loadExecuteAndGetOutput E GetWindows_script w = (Returned (s # rest, None), w1)"
    and "unmarshalWindow E (ReplaceAll s ''js: '' []) = Inr d"
    and "readFile E (length w1) (procCmdlinePath (Pid d)) = (raw, None)"
    and "Fields (TrimSpace (ReplaceAll raw [CHR 0x00] [CHR 0x20])) = cmdLine # others"
    and "uuidParse E (Window.Id d) = Inl e"
  shows "GetWindows E desktops w =
           (Panicked (MustParseFailed (Window.Id d) e),
            w1 @ [EvReadFile (procCmdlinePath (Pid d))])"
  using assms
  by (cases desktops)
     (simp_all add: GetWindows_def GetWindows_body_def getProcessCmdLine_def io_defs Let_def
       MustParse_def resolveDesktops_def)

text \<open>
  Claim C3, on the code. The journal holds one desktop line, respectively one window
  line, whose identifier is \<^verbatim>\<open>not-a-uuid\<close>; the line decodes, \<^verbatim>\<open>uuid.Parse\<close> rejects
  the identifier, and \<^verbatim>\<open>GetDesktops\<close> and \<^verbatim>\<open>GetWindows\<close> panic in \<^verbatim>\<open>uuid.MustParse\<close>
  instead of returning an error.
\<close>

theorem malformed_identifier_panics:
  "fst (GetDesktops badDesktopEnv []) =
     Panicked (MustParseFailed ''not-a-uuid'' (OSError ''invalid UUID format''))
   \<and> fst (GetWindows badWindowEnv None []) =
     Panicked (MustParseFailed ''not-a-uuid'' (OSError ''invalid UUID format''))"
proof -
  let ?raw = "''/usr/bin/konsole'' @ [CHR 0x00] @ ''--profile'' @ [CHR 0x00]"
  have u1: "uuidParse badDesktopEnv (Desktop.Id (sampleDesktop ''not-a-uuid'')) =
            Inl (OSError ''invalid UUID format'')"
    by (simp add: badDesktopEnv_def scriptedEnv_def sampleDesktop_def sample_ids)
  have u2: "uuidParse badWindowEnv (Window.Id (sampleWindow ''not-a-uuid'')) =
            Inl (OSError ''invalid UUID format'')"
    by (simp add: badWindowEnv_def scriptedEnv_def sampleWindow_def sample_ids)
  have r: "readFile badWindowEnv n (procCmdlinePath (Pid (sampleWindow ''not-a-uuid''))) =
           (?raw, None)"
    for n by (simp add: badWindowEnv_def scriptedEnv_def)
  have c: "Fields (TrimSpace (ReplaceAll ?raw [CHR 0x00] [CHR 0x20])) =
            ''/usr/bin/konsole'' # [''--profile'']"
    using sample_cmdline(3) by simp
  have 1: "fst (GetDesktops badDesktopEnv []) =
           Panicked (MustParseFailed ''not-a-uuid'' (OSError ''invalid UUID format''))"
    using GetDesktops_malformed_id
      [OF sample_bridge_ok [of "[]" "[]" "\<lambda>n. [''js: '' @ sampleDesktopJSON ''not-a-uuid'']"
            "([], None)" GetDesktops_script "[]"]
          sample_decoded(3) u1 [unfolded badDesktopEnv_def]]
    by (simp add: sampleDesktop_def badDesktopEnv_def)
  have 2: "fst (GetWindows badWindowEnv None []) =
           Panicked (MustParseFailed ''not-a-uuid'' (OSError ''invalid UUID format''))"
    using GetWindows_malformed_id
      [OF sample_bridge_ok [of "[]" "[]" "\<lambda>n. [''js: '' @ sampleWindowJSON ''not-a-uuid'']"
            "(?raw, None)" GetWindows_script "[]"]
          sample_decoded(2) r [unfolded badWindowEnv_def] c u2 [unfolded badWindowEnv_def],
        of None]
    by (simp add: sampleWindow_def badWindowEnv_def)
  from 1 2 show ?thesis by simp
qed

subsection \<open>The text generated by \<^verbatim>\<open>SetWindowDemandsAttention\<close>\<close>

text \<open>
  Claim C4, on the code. The template ends its assignment with the verb \<^verbatim>\<open>%s\<close>, and
  the operand is a \<^verbatim>\<open>bool\<close>: the text generated for every window and every value
  assigns \<^verbatim>\<open>%!s(bool=true)\<close> or \<^verbatim>\<open>%!s(bool=false)\<close>, not the boolean literal.
  (\<^verbatim>\<open>maximizeWindowHV\<close> formats its booleans with \<^verbatim>\<open>%v\<close>.)
\<close>

theorem SetWindowDemandsAttention_command_text:
  "SetWindowDemandsAttention_command w demandsAttention =
     ''\<newline>'' @
     TAB @ TAB @ ''windowId = '' @ DQ @ Window.Id w @
     DQ @ '';\<newline>'' @
     TAB @ TAB @ ''for (const window of workspace.windowList()) {\<newline>'' @
     TAB @ TAB @ TAB @ ''var w = undefined;\<newline>'' @
     TAB @ TAB @ TAB @ ''for (const window of workspace.windowList()) {\<newline>'' @
     TAB @ TAB @ TAB @ TAB @ ''wid = window.internalId.toString().replace(/{/, '' @ DQ @ DQ @ '').replace(/}/, '' @ DQ @ DQ @ '');\<newline>'' @
     TAB @ TAB @ TAB @ TAB @ ''if (wid === windowId) {\<newline>'' @
     TAB @ TAB @ TAB @ TAB @ TAB @ ''w = window;\<newline>'' @
     TAB @ TAB @ TAB @ TAB @ TAB @ ''break;\<newline>'' @
     TAB @ TAB @ TAB @ TAB @ ''}\<newline>'' @
     TAB @ TAB @ TAB @ ''}\<newline>'' @
     TAB @ TAB @ TAB @ ''if (w) {\<newline>'' @
     TAB @ TAB @ TAB @ TAB @ ''w.demandsAttention = '' @ ''%!s(bool='' @ (if demandsAttention then ''true'' else ''false'') @ '')'' @
     '';\<newline>'' @
     TAB @ TAB @ TAB @ ''}\<newline>'' @
     TAB @ TAB @ ''}''"
  by (simp add: SetWindowDemandsAttention_command_def SetWindowDemandsAttention_script_def
      formatVerb_def verbFits_def)

subsection \<open>Joining windows to desktops\<close>



subsection \<open>The order of the queries\<close>

text \<open>
  Claim C7. \<^verbatim>\<open>GetEnvironment\<close> runs \<^verbatim>\<open>GetScreens\<close> first and \<^verbatim>\<open>GetDesktops\<close> on the
  trace that \<^verbatim>\<open>GetScreens\<close> left. When \<^verbatim>\<open>GetDesktops\<close> returns an error,
  \<^verbatim>\<open>GetEnvironment\<close> returns that error with the zero environment; the only effect
  after \<^verbatim>\<open>GetDesktops\<close> is the message printed, and nothing since the call began has
  written the windows script to a file, so \<^verbatim>\<open>GetWindows\<close> has not run. When
  \<^verbatim>\<open>GetDesktops\<close> succeeds, \<^verbatim>\<open>GetWindows\<close> runs with its map on the trace it left,
  and its success ends the call.
\<close>

theorem GetEnvironment_order:
  assumes "GetScreens E w = (Returned (screens, None), w1)"
  shows "(\<forall>desktops e w2.
            GetDesktops E w1 = (Returned (desktops, Some e), w2) \<longrightarrow>
              GetEnvironment E w =
                (Returned (zeroEnvironment, Some e),
                 w2 @ [EvPrintf ''Error getting desktops: %v\<newline>'' [PErr e]])
              \<and> (\<forall>fname. EvWriteString fname GetWindows_script
                     \<notin> set (drop (length w) (snd (GetEnvironment E w)))))
       \<and> (\<forall>desktops w2 windows w3.
            GetDesktops E w1 = (Returned (desktops, None), w2) \<longrightarrow>
            GetWindows E desktops w2 = (Returned (windows, None), w3) \<longrightarrow>
              GetEnvironment E w =
                (Returned (\<lparr>Screens = screens, Environment.Desktops = desktops,
                            Windows = windows\<rparr>, None), w3))"
proof (intro conjI allI impI)
  fix desktops e w2
  assume d: "GetDesktops E w1 = (Returned (desktops, Some e), w2)"
  show g: "GetEnvironment E w =
      (Returned (zeroEnvironment, Some e),
       w2 @ [EvPrintf ''Error getting desktops: %v\<newline>'' [PErr e]])"
    using assms d by (simp add: GetEnvironment_def io_defs)
  from onlyEventsD [OF onlyEvents_GetScreens assms] obtain evs1 where
    1: "w1 = w @ evs1" "list_all (otherScript GetWindows_script) evs1" by blast
  from onlyEventsD [OF onlyEvents_GetDesktops d] obtain evs2 where
    2: "w2 = w1 @ evs2" "list_all (otherScript GetWindows_script) evs2" by blast
  fix fname
  show "EvWriteString fname GetWindows_script \<notin> set (drop (length w) (snd (GetEnvironment E w)))"
    using 1 2 by (auto simp: g list_all_iff otherScript_def)
next
  fix desktops w2 windows w3
  assume "GetDesktops E w1 = (Returned (desktops, None), w2)"
    and "GetWindows E desktops w2 = (Returned (windows, None), w3)"
  with assms show "GetEnvironment E w =
      (Returned (\<lparr>Screens = screens, Environment.Desktops = desktops, Windows = windows\<rparr>, None), w3)"
    by (simp add: GetEnvironment_def io_defs)
qed

text \<open>
  Two sample runs: the journal gives a screen line to the first query and a truncated
  line to the second, so that \<^verbatim>\<open>GetDesktops\<close> fails after 30 events and one message
  follows; and the journal is empty for all three queries, which succeed in order.
\<close>

theorem GetEnvironment_order_witness:
  "fst (GetScreens
     (scriptedEnv (procOK loadReply) (procOK []) (procOK [])
        (\<lambda>n. procOK (if n < 15 then [''js: '' @ sampleScreenJSON] else [''js: {'']))
        ([], None)) [])
     = Returned (Some [''DP-1'' \<mapsto> sampleScreen], None)
   \<and> fst (GetEnvironment
     (scriptedEnv (procOK loadReply) (procOK []) (procOK [])
        (\<lambda>n. procOK (if n < 15 then [''js: '' @ sampleScreenJSON] else [''js: {'']))
        ([], None)) [])
     = Returned (zeroEnvironment, Some (DecodeError ''{''))
   \<and> length (snd (GetEnvironment
     (scriptedEnv (procOK loadReply) (procOK []) (procOK [])
        (\<lambda>n. procOK (if n < 15 then [''js: '' @ sampleScreenJSON] else [''js: {'']))
        ([], None)) [])) = 31
   \<and> GetEnvironment
     (scriptedEnv (procOK loadReply) (procOK []) (procOK []) (\<lambda>n. procOK []) ([], None)) []
     = (Returned (\<lparr>Screens = Some Map.empty, Environment.Desktops = Some Map.empty,
                   Windows = Some Map.empty\<rparr>, None),
        snd (GetWindows
          (scriptedEnv (procOK loadReply) (procOK []) (procOK []) (\<lambda>n. procOK []) ([], None))
          (Some Map.empty)
          (snd (GetDesktops
             (scriptedEnv (procOK loadReply) (procOK []) (procOK []) (\<lambda>n. procOK []) ([], None))
             (snd (GetScreens
                (scriptedEnv (procOK loadReply) (procOK []) (procOK []) (\<lambda>n. procOK [])
                   ([], None)) []))))))"
proof -
  let ?out = "\<lambda>n::nat. if n < 15 then [''js: '' @ sampleScreenJSON] else [''js: {'']"
  define E where "E = scriptedEnv (procOK loadReply) (procOK []) (procOK [])
        (\<lambda>n. procOK (?out n)) ([], None)"
  define F where "F = scriptedEnv (procOK loadReply) (procOK []) (procOK [])
        (\<lambda>n. procOK ((\<lambda>n. []) n)) ([], None)"
  note b = sample_bridge_ok [of "[]" "[]" ?out "([], None)", folded E_def]
  note c = sample_bridge_ok [of "[]" "[]" "\<lambda>n. []" "([], None)", folded F_def]
  obtain w1 where s: "GetScreens E [] = (Returned (Some [''DP-1'' \<mapsto> sampleScreen], None), w1)"
    and l1: "length w1 = 15"
    using sample_decoded(4) [of "procOK loadReply" "procOK []" "procOK []"
        "\<lambda>n. procOK (?out n)" "([], None)", folded E_def]
    by (simp add: GetScreens_def andThen_def ret_def b GetScreens_body_def sampleScreen_def)
  have u: "unmarshalDesktop E (ReplaceAll ''js: {'' ''js: '' []) = Inl (DecodeError ''{'')"
    by (simp add: E_def scriptedEnv_def ReplaceAll_def sampleUnmarshalDesktop_def
        sampleDesktopJSON_def)
  obtain w2 where d: "GetDesktops E w1 = (Returned (None, Some (DecodeError ''{'')), w2)"
    and l2: "length w2 = 30"
    by (simp add: GetDesktops_def andThen_def ret_def b l1 GetDesktops_body_def u)
  obtain v1 where fs: "GetScreens F [] = (Returned (Some Map.empty, None), v1)"
    by (simp add: GetScreens_def andThen_def ret_def c)
  obtain v2 where fd: "GetDesktops F v1 = (Returned (Some Map.empty, None), v2)"
    by (simp add: GetDesktops_def andThen_def ret_def c)
  obtain v3 where fw: "GetWindows F (Some Map.empty) v2 = (Returned (Some Map.empty, None), v3)"
    by (simp add: GetWindows_def andThen_def ret_def c)
  from GetEnvironment_order [OF s] d have
    e: "GetEnvironment E [] =
          (Returned (zeroEnvironment, Some (DecodeError ''{'')),
           w2 @ [EvPrintf ''Error getting desktops: %v\<newline>'' [PErr (DecodeError ''{'')]])"
    by blast
  from GetEnvironment_order [OF fs] fd fw have
    f: "GetEnvironment F [] =
          (Returned (\<lparr>Screens = Some Map.empty, Environment.Desktops = Some Map.empty,
                      Windows = Some Map.empty\<rparr>, None), v3)"
    by blast
  from s e l2 f fs fd fw show ?thesis
    unfolding E_def [symmetric] F_def [symmetric, simplified] by simp
qed

subsection \<open>An abnormal exit of the journal query\<close>

text \<open>
  Claim C8. When the journal process has been started and \<^verbatim>\<open>Wait\<close> reports an abnormal
  exit, \<^verbatim>\<open>getJournal\<close> returns that error and no lines, whatever the two scanners had
  read; the lines read are printed, not returned.
\<close>

theorem getJournal_abnormal_exit:
  assumes "runProgram E (length w) journalCtl (getJournal_args E from to) = p"
    and "cmdErr p = None" and "stdoutPipeErr p = None" and "stderrPipeErr p = None"
    and "startErr p = None" and "waitErr p = Some e"
  shows "getJournal E from to w =
           (Returned ([], Some e),
            w @ [EvCommand journalCtl (getJournal_args E from to),
                 EvWait journalCtl (getJournal_args E from to),
                 EvPrintf ''Command finished with error: %v\<newline>'' [PErr e]]
              @ map (\<lambda>l. EvPrintf ''%s\<newline>'' [PStr l]) (stdoutLines p @ stderrLines p))"
  using assms
  by (simp add: getJournal_def callProgramAndReadOutput_def io_defs Let_def printLines_run)

text \<open>The journal process of this run had printed a line on each stream before it failed.\<close>

theorem getJournal_abnormal_exit_witness:
  "fst (getJournal
     (scriptedEnv (procOK loadReply) (procOK []) (procOK [])
        (\<lambda>n. procExits [''js: partial''] [''Failed to read journal''] (OSError ''exit status 1''))
        ([], None)) 5 10 []) = Returned ([], Some (OSError ''exit status 1''))"
proof -
  let ?p = "procExits [''js: partial''] [''Failed to read journal''] (OSError ''exit status 1'')"
  let ?E = "scriptedEnv (procOK loadReply) (procOK []) (procOK []) (\<lambda>n. ?p) ([], None)"
  have "runProgram ?E (length []) journalCtl (getJournal_args ?E 5 10) = ?p"
    by (simp add: scriptedEnv_def)
  from getJournal_abnormal_exit [OF this, of "OSError ''exit status 1''"]
  show ?thesis by (simp add: procExits_def)
qed

subsection \<open>Decoding journal lines\<close>



subsection \<open>An empty command line\<close>

text \<open>
  Claim C10. When the command line read for a window's process has no field after the
  NUL bytes have been replaced by spaces and the text trimmed, \<^verbatim>\<open>GetWindows\<close> panics
  with an index out of range (index 0, length 0) and returns no error.
\<close>

theorem GetWindows_empty_cmdline_panics:
  assumes "loadExecuteAndGetOutput E GetWindows_script w = (Returned (s # rest, None), w1)"
    and "unmarshalWindow E (ReplaceAll s ''js: '' []) = Inr d"
    and "readFile E (length w1) (procCmdlinePath (Pid d)) = (raw, None)"
    and "Fields (TrimSpace (ReplaceAll raw [CHR 0x00] [CHR 0x20])) = []"
  shows "GetWindows E desktops w =
           (Panicked (IndexOutOfRange 0 0), w1 @ [EvReadFile (procCmdlinePath (Pid d))])"
  using assms
  by (simp add: GetWindows_def GetWindows_body_def getProcessCmdLine_def io_defs Let_def)

text \<open>An empty command line, and one made of two NUL bytes.\<close>

theorem GetWindows_empty_cmdline_panics_witness:
  "fst (GetWindows
     (scriptedEnv (procOK loadReply) (procOK []) (procOK [])
        (\<lambda>n. procOK [''js: '' @ sampleWindowJSON idW]) ([], None)) None [])
     = Panicked (IndexOutOfRange 0 0)
   \<and> fst (GetWindows
     (scriptedEnv (procOK loadReply) (procOK []) (procOK [])
        (\<lambda>n. procOK [''js: '' @ sampleWindowJSON idW]) ([CHR 0x00, CHR 0x00], None)) None [])
     = Panicked (IndexOutOfRange 0 0)"
proof -
  have "fst (GetWindows
     (scriptedEnv (procOK loadReply) (procOK []) (procOK [])
        (\<lambda>n. procOK [''js: '' @ sampleWindowJSON idW]) (raw, None)) None [])
     = Panicked (IndexOutOfRange 0 0)"
    if raw: "Fields (TrimSpace (ReplaceAll raw [CHR 0x00] [CHR 0x20])) = []" for raw
  proof -
    let ?E = "scriptedEnv (procOK loadReply) (procOK []) (procOK [])
        (\<lambda>n. procOK [''js: '' @ sampleWindowJSON idW]) (raw, None)"
    note h0 = sample_bridge_ok [of "[]" "[]" "\<lambda>n. [''js: '' @ sampleWindowJSON idW]"
        "(raw, None)" GetWindows_script "[]"]
    have h1: "unmarshalWindow ?E (ReplaceAll (''js: '' @ sampleWindowJSON idW) ''js: '' []) =
              Inr (sampleWindow idW)"
      by (rule sample_decoded)
    have h2: "readFile ?E n (procCmdlinePath (Pid (sampleWindow idW))) = (raw, None)" for n
      by (simp add: scriptedEnv_def)
    from GetWindows_empty_cmdline_panics [OF h0 h1 h2 raw, of None]
    show ?thesis by simp
  qed
  from this [OF sample_cmdline(1)] this [OF sample_cmdline(2)] show ?thesis by simp
qed

end
